theory Spec2Isabelle
  imports Main
begin

section \<open>JavaScript values and string primitives\<close>

text \<open>
  The scripts of the repository are Node.js programs that read a descriptor
  (\<^verbatim>\<open>world.json\<close>), query the file system and drive the \<^verbatim>\<open>docker\<close> command.
  A value read from a parsed JSON document is a \<open>jsval\<close>; \<open>truthy\<close> is
  JavaScript's conversion to a boolean, as used by \<^verbatim>\<open>if (v)\<close> and \<^verbatim>\<open>a || b\<close>.
  Numbers are the integers (ports); nested objects are not modelled.
\<close>

datatype jsval =
    JUndefined
  | JNull
  | JBool bool
  | JNum int
  | JStr string
  | JArr "jsval list"

fun truthy :: "jsval \<Rightarrow> bool" where
  "truthy JUndefined = False"
| "truthy JNull = False"
| "truthy (JBool b) = b"
| "truthy (JNum n) = (n \<noteq> 0)"
| "truthy (JStr s) = (s \<noteq> [])"
| "truthy (JArr vs) = True"

text \<open>\<^verbatim>\<open>a || b\<close>\<close>

definition js_or :: "jsval \<Rightarrow> jsval \<Rightarrow> jsval" where
  "js_or a b = (if truthy a then a else b)"

text \<open>\<^verbatim>\<open>s.startsWith(p)\<close>\<close>

definition startsWith :: "string \<Rightarrow> string \<Rightarrow> bool" where
  "startsWith s p = (take (length p) s = p)"

text \<open>
  \<^verbatim>\<open>s.split(sep)\<close> for a one-character separator: the pieces between the
  separators; the empty string splits into one empty piece.
\<close>

fun js_split :: "char \<Rightarrow> string \<Rightarrow> string list" where
  "js_split sep [] = [[]]"
| "js_split sep (x # xs) =
     (if x = sep then [] # js_split sep xs
      else (case js_split sep xs of
              [] \<Rightarrow> [[x]]
            | p # ps \<Rightarrow> (x # p) # ps))"

text \<open>
  \<^verbatim>\<open>s.trim()\<close> removes white space and line terminators at both ends (the
  ASCII ones here: tab, line feed, vertical tab, form feed, carriage return, space).
\<close>

definition newline :: char where
  "newline = CHR 0x0A"

definition is_space :: "char \<Rightarrow> bool" where
  "is_space c = (c \<in> set [CHR 0x09, CHR 0x0A, CHR 0x0B, CHR 0x0C, CHR 0x0D, CHR 0x20])"

definition trimEnd :: "string \<Rightarrow> string" where
  "trimEnd s = rev (dropWhile is_space (rev s))"

definition js_trim :: "string \<Rightarrow> string" where
  "js_trim s = trimEnd (dropWhile is_space s)"

section \<open>The world descriptor\<close>

text \<open>
  \<^verbatim>\<open>world.json\<close> after \<^verbatim>\<open>JSON.parse\<close>. Every field may be absent
  (\<open>JUndefined\<close>) or hold any JSON value; the image reference is a string, which is
  what the scripts splice into the \<^verbatim>\<open>docker\<close> command lines. The fields
  \<^verbatim>\<open>image\<close> and \<^verbatim>\<open>type\<close> are \<open>w_image\<close> and \<open>w_type\<close>.
\<close>

record world =
  w_name :: jsval
  w_image :: string
  w_description :: jsval
  w_entry :: jsval
  w_type :: jsval
  w_port :: jsval
  w_tags :: jsval
  w_volumeMount :: jsval

section \<open>The host and the container runtime\<close>

text \<open>
  What a script observes of the machine it runs on. \<open>readJson p\<close> is
  \<^verbatim>\<open>JSON.parse(fs.readFileSync(p, 'utf-8'))\<close>, \<open>None\<close> when that throws (a
  malformed file, or a document that is \<^verbatim>\<open>null\<close>, whose first field access
  throws). \<open>subdirs d\<close> is \<^verbatim>\<open>fs.readdirSync(d, {withFileTypes: true})\<close> filtered by
  \<^verbatim>\<open>isDirectory()\<close>, in enumeration order. \<open>portText v\<close> is the text that a template
  literal prints for \<^verbatim>\<open>parseInt(v)\<close>. \<open>inspectOk img\<close> tells whether
  \<^verbatim>\<open>docker image inspect img\<close> exits with status 0, and \<open>buildStatus img dir\<close> is the
  exit status of \<^verbatim>\<open>docker build -t img dir\<close> (\<open>None\<close> for \<^verbatim>\<open>null\<close>);
  \<open>runStatus args\<close> is the exit status of \<^verbatim>\<open>docker\<close> run synchronously with
  \<open>args\<close>.
\<close>

record host =
  cwd :: string
  homedir :: string
  platform :: string
  pathResolve :: "string \<Rightarrow> string"
  pathJoin :: "string \<Rightarrow> string \<Rightarrow> string"
  existsSync :: "string \<Rightarrow> bool"
  readJson :: "string \<Rightarrow> world option"
  subdirs :: "string \<Rightarrow> string list"
  portText :: "jsval \<Rightarrow> string"
  inspectOk :: "string \<Rightarrow> bool"
  buildStatus :: "string \<Rightarrow> string \<Rightarrow> int option"
  runStatus :: "string list \<Rightarrow> int option"

text \<open>
  The running containers. \<open>ancestry c\<close> lists the image references that the filter
  \<^verbatim>\<open>ancestor=\<close> matches for container \<open>c\<close>; \<open>stuck\<close> holds the identifiers for which
  \<^verbatim>\<open>docker stop\<close> fails; \<open>daemonUp\<close> tells whether \<^verbatim>\<open>docker\<close> commands can be
  run at all.
\<close>

record container =
  cid :: string
  cname :: string
  ancestry :: "string list"

record runtime =
  daemonUp :: bool
  running :: "container list"
  stuck :: "string list"

definition instances :: "runtime \<Rightarrow> string \<Rightarrow> container list" where
  "instances rt img = filter (\<lambda>c. img \<in> set (ancestry c)) (running rt)"

text \<open>
  \<^verbatim>\<open>docker ps --filter ancestor=img --format fmt\<close>: one line per matching container,
  \<open>None\<close> when the command fails (\<^verbatim>\<open>execSync\<close> throws).
\<close>

definition docker_ps :: "runtime \<Rightarrow> string \<Rightarrow> (container \<Rightarrow> string) \<Rightarrow> string option" where
  "docker_ps rt img fmt =
     (if daemonUp rt then Some (concat (map (\<lambda>c. fmt c @ [newline]) (instances rt img)))
      else None)"

text \<open>The formats \<^verbatim>\<open>{{.ID}} {{.Names}}\<close> and \<^verbatim>\<open>{{.ID}}\<close>.\<close>

definition fmt_id_names :: "container \<Rightarrow> string" where
  "fmt_id_names c = cid c @ '' '' @ cname c"

definition fmt_id :: "container \<Rightarrow> string" where
  "fmt_id c = cid c"

text \<open>
  \<^verbatim>\<open>docker stop id\<close>: whether it succeeded, and the runtime afterwards.
\<close>

definition docker_stop :: "runtime \<Rightarrow> string \<Rightarrow> bool \<times> runtime" where
  "docker_stop rt i =
     (if daemonUp rt \<and> i \<in> set (map cid (running rt)) \<and> i \<notin> set (stuck rt)
      then (True, rt\<lparr>running := filter (\<lambda>c. cid c \<noteq> i) (running rt)\<rparr>)
      else (False, rt))"

section \<open>What a script does\<close>

text \<open>
  The child processes a script starts, in order, and the diagnostics it prints. The
  banners that every run prints alike are left out; each message below stands for one
  \<^verbatim>\<open>console.log\<close>, \<^verbatim>\<open>console.warn\<close> or \<^verbatim>\<open>console.error\<close> line that tells
  the branches apart. \<open>UncaughtException\<close> is an exception that nothing catches
  (Node prints it and exits with status 1).
\<close>

datatype call =
    ExecSync string
  | SpawnSync string "string list"
  | Spawn string "string list"

datatype msg =
    NoWorldJson string
  | UncaughtException
  | LookingForContainer string
  | FailedDockerPs
  | NoRunningContainer string
  | StoppingContainer string
  | FailedToStop string
  | ContainersStopped nat
  | CliMode
  | DetachedMode
  | DockerBuildFailed
  | DockerfileNotFound
  | UnknownWorldType jsval
  | DockerExitedWith "int option"
  | CatalogFound jsval
  | CatalogParseFailed string
  | CatalogSkipped string
  | FailedToLoad string
  | NoWorldsFound
  | WorldNotRunning
  | FailedToStopWorld
  | InjectNeedsRunning
  | InjectComingSoon
  | LogsNeedRunning

record outcome =
  status :: nat
  calls :: "call list"
  out :: "msg list"

text \<open>A \<^verbatim>\<open>docker run\<close>, and a \<^verbatim>\<open>docker stop\<close>.\<close>

definition is_run :: "call \<Rightarrow> bool" where
  "is_run c =
     (case c of
        ExecSync s \<Rightarrow> startsWith s ''docker run''
      | SpawnSync prog as \<Rightarrow> prog = ''docker'' \<and> take 1 as = [''run'']
      | Spawn prog as \<Rightarrow> prog = ''docker'' \<and> take 1 as = [''run''])"

definition is_terminate :: "call \<Rightarrow> bool" where
  "is_terminate c =
     (case c of
        ExecSync s \<Rightarrow> startsWith s ''docker stop ''
      | SpawnSync prog as \<Rightarrow> prog = ''docker'' \<and> take 1 as = [''stop'']
      | Spawn prog as \<Rightarrow> prog = ''docker'' \<and> take 1 as = [''stop''])"

text \<open>A \<^verbatim>\<open>docker build\<close>.\<close>

definition is_build :: "call \<Rightarrow> bool" where
  "is_build c =
     (case c of
        ExecSync s \<Rightarrow> startsWith s ''docker build''
      | SpawnSync prog as \<Rightarrow> prog = ''docker'' \<and> take 1 as = [''build'']
      | Spawn prog as \<Rightarrow> prog = ''docker'' \<and> take 1 as = [''build''])"

section \<open>Loading the descriptor of a named directory\<close>

text \<open>
  The single-world scripts (world-launch, world-stop and the second launcher) open with
  the same lines: resolve the directory, fail when \<^verbatim>\<open>world.json\<close> is missing, parse it.
\<close>

definition loadWorldJson :: "host \<Rightarrow> string \<Rightarrow> msg + world" where
  "loadWorldJson h dir =
     (let worldDir = pathResolve h dir;
          configPath = pathJoin h worldDir ''world.json''
      in if \<not> existsSync h configPath then Inl (NoWorldJson configPath)
         else (case readJson h configPath of
                 None \<Rightarrow> Inl UncaughtException
               | Some world \<Rightarrow> Inr world))"

section \<open>world-stop (src/unnamed/part_003)\<close>

text \<open>\<^verbatim>\<open>process.argv[2] || '.'\<close>, on \<^verbatim>\<open>process.argv.slice(2)\<close>.\<close>

definition argDir :: "string list \<Rightarrow> string" where
  "argDir argv = (case argv of [] \<Rightarrow> ''.'' | a # as \<Rightarrow> if a = [] then ''.'' else a)"

text \<open>\<^verbatim>\<open>line.split(' ')[0]\<close>\<close>

definition first_field :: "string \<Rightarrow> string" where
  "first_field line = (case js_split (CHR '' '') line of [] \<Rightarrow> [] | p # ps \<Rightarrow> p)"

definition ps_stop_cmd :: "string \<Rightarrow> call" where
  "ps_stop_cmd imageName =
     ExecSync (''docker ps --filter ancestor='' @ imageName @ '' --format \"{{.ID}} {{.Names}}\"'')"

definition stop_cmd :: "string \<Rightarrow> call" where
  "stop_cmd containerId = ExecSync (''docker stop '' @ containerId)"

text \<open>
  The \<^verbatim>\<open>containers.forEach\<close> loop: each iteration has its own
  \<^verbatim>\<open>try\<close>/\<^verbatim>\<open>catch\<close>, so a failing \<^verbatim>\<open>docker stop\<close> prints a warning and
  the loop goes on.
\<close>

fun stop_containers :: "runtime \<Rightarrow> string list \<Rightarrow> (call list \<times> msg list) \<times> runtime" where
  "stop_containers rt [] = (([], []), rt)"
| "stop_containers rt (containerId # rest) =
     (case docker_stop rt containerId of
        (ok, rt1) \<Rightarrow>
          (case stop_containers rt1 rest of
             ((cs, ms), rt2) \<Rightarrow>
               ((stop_cmd containerId # cs,
                 StoppingContainer containerId #
                   (if ok then ms else FailedToStop containerId # ms)),
                rt2)))"

text \<open>
  The script, given \<^verbatim>\<open>process.argv.slice(2)\<close>. It returns what it did and the
  runtime it leaves.
\<close>

definition world_stop :: "host \<Rightarrow> runtime \<Rightarrow> string list \<Rightarrow> outcome \<times> runtime" where
  "world_stop h rt argv =
     (case loadWorldJson h (argDir argv) of
        Inl e \<Rightarrow> (\<lparr>status = 1, calls = [], out = [e]\<rparr>, rt)
      | Inr world \<Rightarrow>
         (let imageName = w_image world in
          case docker_ps rt imageName fmt_id_names of
            None \<Rightarrow>
              (\<lparr>status = 1, calls = [ps_stop_cmd imageName],
                out = [LookingForContainer imageName, FailedDockerPs]\<rparr>, rt)
          | Some raw \<Rightarrow>
             (let output = js_trim raw in
              if output = []
              then (\<lparr>status = 0, calls = [ps_stop_cmd imageName],
                     out = [LookingForContainer imageName, NoRunningContainer imageName]\<rparr>, rt)
              else (let containers = map first_field (js_split newline output) in
                    case stop_containers rt containers of
                      ((cs, ms), rt') \<Rightarrow>
                        (\<lparr>status = 0, calls = ps_stop_cmd imageName # cs,
                          out = LookingForContainer imageName # ms
                                @ [ContainersStopped (length containers)]\<rparr>, rt')))))"

section \<open>world-launch (src/world-launch.js)\<close>

text \<open>
  \<^verbatim>\<open>args.find(arg => !arg.startsWith('--') && !arg.startsWith('-')) || '.'\<close>
\<close>

definition inputDir :: "string list \<Rightarrow> string" where
  "inputDir args =
     (case find (\<lambda>arg. \<not> startsWith arg ''--'' \<and> \<not> startsWith arg ''-'') args of
        None \<Rightarrow> ''.''
      | Some a \<Rightarrow> if a = [] then ''.'' else a)"

text \<open>
  \<^verbatim>\<open>getArg(flag)\<close>: the text after the first \<^verbatim>\<open>=\<close> (up to the next one) of the
  first argument that starts with \<^verbatim>\<open>flag=\<close>, else \<^verbatim>\<open>null\<close>.
\<close>

definition getArg :: "string list \<Rightarrow> string \<Rightarrow> jsval" where
  "getArg args flag =
     (case find (\<lambda>arg. startsWith arg (flag @ ''='')) args of
        None \<Rightarrow> JNull
      | Some entry \<Rightarrow>
          if entry = [] then JNull
          else (case js_split (CHR ''='') entry of
                  p # v # ps \<Rightarrow> JStr v
                | _ \<Rightarrow> JUndefined))"

text \<open>\<^verbatim>\<open>args.includes('--detach') || args.includes('-d')\<close>\<close>

definition detachRequested :: "string list \<Rightarrow> bool" where
  "detachRequested args = (''--detach'' \<in> set args \<or> ''-d'' \<in> set args)"

text \<open>
  The text of \<^verbatim>\<open>launchPort = parseInt(portOverride || world.port || 8080)\<close>.
\<close>

definition launchPort :: "host \<Rightarrow> jsval \<Rightarrow> world \<Rightarrow> string" where
  "launchPort h portOverride world =
     portText h (js_or (js_or portOverride (w_port world)) (JNum 8080))"

definition inspect_cmd :: "string \<Rightarrow> call" where
  "inspect_cmd img = ExecSync (''docker image inspect '' @ img)"

definition build_cmd :: "string \<Rightarrow> string \<Rightarrow> call" where
  "build_cmd img worldDir = SpawnSync ''docker'' [''build'', ''-t'', img, worldDir]"

text \<open>
  Lines 54 to 72, the image check (the specification's \<^verbatim>\<open>ensureImage\<close>): the calls
  made and the error, if any, that ends the script with status 1.
\<close>

definition ensureImage :: "host \<Rightarrow> string \<Rightarrow> string \<Rightarrow> call list \<times> msg option" where
  "ensureImage h img worldDir =
     (if inspectOk h img then ([inspect_cmd img], None)
      else (let dockerfilePath = pathJoin h worldDir ''Dockerfile'' in
            if existsSync h dockerfilePath
            then (if buildStatus h img worldDir \<noteq> Some 0
                  then ([inspect_cmd img, build_cmd img worldDir], Some DockerBuildFailed)
                  else ([inspect_cmd img, build_cmd img worldDir], None))
            else ([inspect_cmd img], Some DockerfileNotFound)))"

text \<open>
  Lines 74 to 90: the arguments of \<^verbatim>\<open>docker\<close>, or the error of an unknown type.
\<close>

definition dockerArgs :: "world \<Rightarrow> string \<Rightarrow> string \<Rightarrow> bool \<Rightarrow> msg + string list" where
  "dockerArgs world port absoluteDir detached =
     (if w_type world = JStr ''web''
      then Inr ([''run'', ''--rm''] @ [''-p'', port @ '':80'']
                @ (if truthy (w_volumeMount world) then [''-v'', absoluteDir @ '':/app''] else [])
                @ (if detached then [''-d''] else []) @ [w_image world])
      else if w_type world = JStr ''cli''
      then Inr ([''run'', ''--rm''] @ [''-it'']
                @ (if detached then [''-d''] else []) @ [w_image world])
      else Inl (UnknownWorldType (w_type world)))"

definition openBrowser :: "host \<Rightarrow> string \<Rightarrow> call" where
  "openBrowser h url =
     (if platform h = ''win32'' then Spawn ''cmd'' [''/c'', ''start'', [], url]
      else if platform h = ''darwin'' then Spawn ''open'' [url]
      else Spawn ''xdg-open'' [url])"

text \<open>
  Lines 12 and 47 to 51: \<^verbatim>\<open>detached\<close> after the \<^verbatim>\<open>cli\<close> check, and the two
  mode lines printed there.
\<close>

definition launch_detached :: "world \<Rightarrow> string list \<Rightarrow> bool" where
  "launch_detached world args =
     (if w_type world = JStr ''cli'' then False else detachRequested args)"

definition launch_banner :: "world \<Rightarrow> string list \<Rightarrow> msg list" where
  "launch_banner world args =
     (if w_type world = JStr ''cli'' then [CliMode] else [])
     @ (if launch_detached world args then [DetachedMode] else [])"

text \<open>
  The script. Its status is that of its own exits: 1 at each \<^verbatim>\<open>process.exit(1)\<close>, 0
  once \<^verbatim>\<open>docker run\<close> has been started (what happens to the process when a child
  cannot be spawned is not modelled).
\<close>

definition world_launch :: "host \<Rightarrow> string list \<Rightarrow> outcome" where
  "world_launch h args =
     (let absoluteDir = pathResolve h (inputDir args);
          portOverride = getArg args ''--port'';
          worldDir = pathResolve h (inputDir args)
      in case loadWorldJson h (inputDir args) of
           Inl e \<Rightarrow> \<lparr>status = 1, calls = [], out = [e]\<rparr>
         | Inr world \<Rightarrow>
            (let port = launchPort h portOverride world
             in case ensureImage h (w_image world) worldDir of
                  (cs, Some e) \<Rightarrow> \<lparr>status = 1, calls = cs, out = launch_banner world args @ [e]\<rparr>
                | (cs, None) \<Rightarrow>
                   (case dockerArgs world port absoluteDir (launch_detached world args) of
                      Inl e \<Rightarrow> \<lparr>status = 1, calls = cs, out = launch_banner world args @ [e]\<rparr>
                    | Inr as \<Rightarrow>
                        \<lparr>status = 0,
                         calls = cs @ [Spawn ''docker'' as]
                                 @ (if w_type world = JStr ''web''
                                    then [openBrowser h (''http://localhost:'' @ port)] else []),
                         out = launch_banner world args\<rparr>)))"

section \<open>The second launcher (src/unnamed/part_006)\<close>

text \<open>
  The same script with a synchronous \<^verbatim>\<open>docker run\<close>, no volume mount and no
  browser; \<^verbatim>\<open>detached\<close> is a constant here.
\<close>

definition dockerArgs_sync :: "world \<Rightarrow> string \<Rightarrow> bool \<Rightarrow> msg + string list" where
  "dockerArgs_sync world port detached =
     (if w_type world = JStr ''web''
      then Inr ([''run'', ''--rm''] @ [''-p'', port @ '':80'']
                @ (if detached then [''-d''] else []) @ [w_image world])
      else if w_type world = JStr ''cli''
      then Inr ([''run'', ''--rm''] @ [''-it'']
                @ (if detached then [''-d''] else []) @ [w_image world])
      else Inl (UnknownWorldType (w_type world)))"

definition world_launch_sync :: "host \<Rightarrow> string list \<Rightarrow> outcome" where
  "world_launch_sync h args =
     (let portOverride = js_or (getArg args ''--port'') JNull;
          detached = detachRequested args;
          worldDir = pathResolve h (inputDir args)
      in case loadWorldJson h (inputDir args) of
           Inl e \<Rightarrow> \<lparr>status = 1, calls = [], out = [e]\<rparr>
         | Inr world \<Rightarrow>
            (let port = launchPort h portOverride world;
                 banner = (if detached then [DetachedMode] else [])
             in case ensureImage h (w_image world) worldDir of
                  (cs, Some e) \<Rightarrow> \<lparr>status = 1, calls = cs, out = banner @ [e]\<rparr>
                | (cs, None) \<Rightarrow>
                   (case dockerArgs_sync world port detached of
                      Inl e \<Rightarrow> \<lparr>status = 1, calls = cs, out = banner @ [e]\<rparr>
                    | Inr as \<Rightarrow>
                        \<lparr>status = 0,
                         calls = cs @ [SpawnSync ''docker'' as],
                         out = banner @ (if runStatus h as \<noteq> Some 0 \<and> \<not> detached
                                         then [DockerExitedWith (runStatus h as)] else [])\<rparr>)))"

section \<open>generate-catalog (src/world-list.js, second script)\<close>

record catalog_entry =
  e_name :: jsval
  e_description :: jsval
  e_image :: string
  e_type :: jsval
  e_port :: jsval
  e_tags :: jsval

record catalog =
  entries :: "catalog_entry list"
  notices :: "msg list"

text \<open>The entry pushed for a parsed descriptor, with its defaults.\<close>

definition catalog_entry_of :: "world \<Rightarrow> string \<Rightarrow> catalog_entry" where
  "catalog_entry_of world dirent =
     \<lparr>e_name = js_or (w_name world) (JStr dirent),
      e_description = js_or (w_description world) (JStr []),
      e_image = (if w_image world \<noteq> [] then w_image world else []),
      e_type = js_or (w_type world) (JStr ''web''),
      e_port = js_or (w_port world) JNull,
      e_tags = js_or (w_tags world) (JArr [])\<rparr>"

text \<open>One iteration of the \<^verbatim>\<open>forEach\<close> over the directories of the scan root.\<close>

definition catalog_dir :: "host \<Rightarrow> string \<Rightarrow> string \<Rightarrow> catalog \<Rightarrow> catalog" where
  "catalog_dir h dockerWorldsPath dirent cat =
     (let worldDir = pathJoin h dockerWorldsPath dirent;
          worldJsonPath = pathJoin h worldDir ''world.json''
      in if existsSync h worldJsonPath
         then (case readJson h worldJsonPath of
                 Some world \<Rightarrow>
                   cat\<lparr>entries := entries cat @ [catalog_entry_of world dirent],
                       notices := notices cat @ [CatalogFound (w_name world)]\<rparr>
               | None \<Rightarrow> cat\<lparr>notices := notices cat @ [CatalogParseFailed dirent]\<rparr>)
         else cat\<lparr>notices := notices cat @ [CatalogSkipped dirent]\<rparr>)"

text \<open>The scan; its entries are what \<^verbatim>\<open>catalog.json\<close> is written from.\<close>

definition generate_catalog :: "host \<Rightarrow> catalog" where
  "generate_catalog h =
     (let dockerWorldsPath = pathJoin h (homedir h) ''docker-worlds''
      in fold (catalog_dir h dockerWorldsPath) (subdirs h dockerWorldsPath)
           \<lparr>entries = [], notices = []\<rparr>)"

section \<open>The portal (src/unnamed/part_005)\<close>

text \<open>
  An element of \<^verbatim>\<open>this.worlds\<close>: the descriptor's fields, the directory and the
  result of the probe (the ASCII art preview is left out). The portal is the object's
  two fields, the exit status once the process has ended, and what it did so far.
\<close>

record world_view =
  descriptor :: world
  directory :: string
  isRunning :: bool

record portal =
  worlds :: "world_view list"
  selectedIndex :: int
  exited :: "nat option"
  p_calls :: "call list"
  p_out :: "msg list"

definition ps_id_cmd :: "string \<Rightarrow> call" where
  "ps_id_cmd img =
     ExecSync (''docker ps --filter ancestor='' @ img @ '' --format \"{{.ID}}\"'')"

text \<open>
  The probe of \<^verbatim>\<open>loadWorlds\<close>: \<^verbatim>\<open>isRunning\<close> stays \<^verbatim>\<open>false\<close> when
  \<^verbatim>\<open>execSync\<close> throws.
\<close>

definition probe :: "runtime \<Rightarrow> string \<Rightarrow> bool" where
  "probe rt img =
     (case docker_ps rt img fmt_id of
        None \<Rightarrow> False
      | Some raw \<Rightarrow> length (js_trim raw) > 0)"

text \<open>One iteration of \<^verbatim>\<open>for (const dir of dirs)\<close>.\<close>

definition load_dir :: "host \<Rightarrow> runtime \<Rightarrow> string \<Rightarrow> portal \<Rightarrow> portal" where
  "load_dir h rt dir p =
     (let worldPath = pathJoin h (pathJoin h (cwd h) dir) ''world.json''
      in if existsSync h worldPath
         then (case readJson h worldPath of
                 Some worldData \<Rightarrow>
                   p\<lparr>worlds := worlds p @
                        [\<lparr>descriptor = worldData, directory = dir,
                          isRunning = probe rt (w_image worldData)\<rparr>],
                     p_calls := p_calls p @ [ps_id_cmd (w_image worldData)]\<rparr>
               | None \<Rightarrow> p\<lparr>p_out := p_out p @ [FailedToLoad dir]\<rparr>)
         else p)"

definition loadWorlds :: "host \<Rightarrow> runtime \<Rightarrow> portal \<Rightarrow> portal" where
  "loadWorlds h rt p =
     (let p' = fold (load_dir h rt) (subdirs h (cwd h)) p
      in if length (worlds p') = 0
         then p'\<lparr>p_out := p_out p' @ [NoWorldsFound], exited := Some 0\<rparr>
         else p')"

text \<open>
  The constructor followed by the scan that \<^verbatim>\<open>init()\<close> runs. Drawing the portal
  (\<^verbatim>\<open>showPortal\<close>, called by \<^verbatim>\<open>init()\<close>, the key handlers and the callbacks) is
  not part of \<open>init\<close>, \<open>handleInput\<close> and \<open>step\<close>: it changes neither
  \<^verbatim>\<open>this.worlds\<close> nor \<^verbatim>\<open>this.selectedIndex\<close> and starts no child process, but it
  throws, and the process ends with status 1, when a listed descriptor has a
  \<^verbatim>\<open>name\<close> or a \<^verbatim>\<open>description\<close> that is not a string, or the selected one
  has \<^verbatim>\<open>tags\<close> that are neither falsy nor an array. The field \<open>exited\<close>
  therefore follows the portal on descriptors that it can draw.
\<close>

definition new_portal :: portal where
  "new_portal = \<lparr>worlds = [], selectedIndex = 0, exited = None, p_calls = [], p_out = []\<rparr>"

definition init :: "host \<Rightarrow> runtime \<Rightarrow> portal" where
  "init h rt = loadWorlds h rt new_portal"

text \<open>
  \<^verbatim>\<open>this.worlds[this.selectedIndex]\<close>: \<open>None\<close> stands for \<^verbatim>\<open>undefined\<close>, whose
  first field access throws.
\<close>

definition selected :: "portal \<Rightarrow> world_view option" where
  "selected p =
     (if 0 \<le> selectedIndex p \<and> selectedIndex p < int (length (worlds p))
      then Some (worlds p ! nat (selectedIndex p)) else None)"

definition crash :: "portal \<Rightarrow> portal" where
  "crash p = p\<lparr>p_out := p_out p @ [UncaughtException], exited := Some 1\<rparr>"

definition launchWorld :: "portal \<Rightarrow> portal" where
  "launchWorld p =
     (case selected p of
        None \<Rightarrow> crash p
      | Some world \<Rightarrow>
          p\<lparr>p_calls := p_calls p @ [Spawn ''node'' [''world-launch.js'', directory world]]\<rparr>)"

text \<open>
  \<^verbatim>\<open>stopWorld\<close> runs world-stop as a child process, on the directory of the selected
  world, and reloads when the child exits with status 0.
\<close>

definition stopWorld :: "host \<Rightarrow> runtime \<Rightarrow> portal \<Rightarrow> portal \<times> runtime" where
  "stopWorld h rt p =
     (case selected p of
        None \<Rightarrow> (crash p, rt)
      | Some world \<Rightarrow>
          if \<not> isRunning world then (p\<lparr>p_out := p_out p @ [WorldNotRunning]\<rparr>, rt)
          else (case world_stop h rt [directory world] of
                  (r, rt') \<Rightarrow>
                    (let p1 = p\<lparr>p_calls := p_calls p
                                   @ [ExecSync (''node world-stop.js '' @ directory world)]
                                   @ calls r,
                                 p_out := p_out p @ out r\<rparr>
                     in if status r = 0 then (loadWorlds h rt' p1, rt')
                        else (p1\<lparr>p_out := p_out p1 @ [FailedToStopWorld]\<rparr>, rt'))))"

definition injectData :: "portal \<Rightarrow> portal" where
  "injectData p =
     (case selected p of
        None \<Rightarrow> crash p
      | Some world \<Rightarrow>
          if \<not> isRunning world then p\<lparr>p_out := p_out p @ [InjectNeedsRunning]\<rparr>
          else p\<lparr>p_out := p_out p @ [InjectComingSoon]\<rparr>)"

text \<open>
  \<^verbatim>\<open>viewLogs\<close>: the identifier is the first line of
  \<^verbatim>\<open>docker ps ... | head -1\<close>; the pipeline's status is that of \<^verbatim>\<open>head\<close>, so a failing
  \<^verbatim>\<open>docker ps\<close> gives the empty text.
\<close>

definition viewLogs :: "runtime \<Rightarrow> portal \<Rightarrow> portal" where
  "viewLogs rt p =
     (case selected p of
        None \<Rightarrow> crash p
      | Some world \<Rightarrow>
          if \<not> isRunning world then p\<lparr>p_out := p_out p @ [LogsNeedRunning]\<rparr>
          else (let img = w_image (descriptor world);
                    raw = (case docker_ps rt img fmt_id of None \<Rightarrow> [] | Some t \<Rightarrow> t);
                    containerId = js_trim (takeWhile (\<lambda>c. c \<noteq> newline) raw);
                    ps = ExecSync (''docker ps --filter ancestor='' @ img
                                   @ '' --format \"{{.ID}}\" | head -1'')
                in if containerId \<noteq> []
                   then p\<lparr>p_calls := p_calls p @ [ps, Spawn ''docker'' [''logs'', ''-f'', containerId]]\<rparr>
                   else p\<lparr>p_calls := p_calls p @ [ps]\<rparr>))"

text \<open>
  What the portal reacts to: a key, and the exit of the child started by
  \<^verbatim>\<open>launchWorld\<close> (its callback reloads the worlds) or by \<^verbatim>\<open>viewLogs\<close> (its
  callback only draws the portal again).
\<close>

datatype key = KeyUp | KeyDown | KeyReturn | KeyS | KeyI | KeyL | KeyR | KeyQ | KeyEscape | KeyOther

datatype event = Keypress key | LaunchExited | LogsExited

definition handleInput :: "host \<Rightarrow> runtime \<Rightarrow> key \<Rightarrow> portal \<Rightarrow> portal \<times> runtime" where
  "handleInput h rt k p =
     (case k of
        KeyUp \<Rightarrow> (p\<lparr>selectedIndex := max 0 (selectedIndex p - 1)\<rparr>, rt)
      | KeyDown \<Rightarrow>
          (p\<lparr>selectedIndex := min (int (length (worlds p)) - 1) (selectedIndex p + 1)\<rparr>, rt)
      | KeyReturn \<Rightarrow> (launchWorld p, rt)
      | KeyS \<Rightarrow> stopWorld h rt p
      | KeyI \<Rightarrow> (injectData p, rt)
      | KeyL \<Rightarrow> (viewLogs rt p, rt)
      | KeyR \<Rightarrow> (loadWorlds h rt p, rt)
      | KeyQ \<Rightarrow> (p\<lparr>exited := Some 0\<rparr>, rt)
      | KeyEscape \<Rightarrow> (p\<lparr>exited := Some 0\<rparr>, rt)
      | KeyOther \<Rightarrow> (p, rt))"

text \<open>One event, on a portal that has not exited.\<close>

definition step :: "host \<Rightarrow> runtime \<Rightarrow> event \<Rightarrow> portal \<Rightarrow> portal \<times> runtime" where
  "step h rt e p =
     (if exited p \<noteq> None then (p, rt)
      else (case e of
              Keypress k \<Rightarrow> handleInput h rt k p
            | LaunchExited \<Rightarrow> (loadWorlds h rt p, rt)
            | LogsExited \<Rightarrow> (p, rt)))"

text \<open>
  A session: each event comes with the host and the runtime as they are when it is
  handled (other actors may have changed them in between).
\<close>

fun run :: "(host \<times> runtime \<times> event) list \<Rightarrow> portal \<Rightarrow> portal" where
  "run [] p = p"
| "run ((h, rt, e) # es) p = run es (fst (step h rt e p))"

section \<open>What a scan finds in a directory\<close>

text \<open>
  The state of the descriptor file of a directory; the element of \<^verbatim>\<open>this.worlds\<close>
  that a scan of the portal derives for a directory from the host and the runtime as they
  are (\<open>fresh_views\<close> for all of them, in enumeration order); the warning the portal
  prints for a directory; and the line the catalog scan prints for one.
\<close>

datatype descriptor_state = Missing | Malformed | WellFormed world

definition descriptor_at :: "host \<Rightarrow> string \<Rightarrow> descriptor_state" where
  "descriptor_at h path =
     (if \<not> existsSync h path then Missing
      else (case readJson h path of None \<Rightarrow> Malformed | Some w \<Rightarrow> WellFormed w))"

definition is_wellformed :: "descriptor_state \<Rightarrow> bool" where
  "is_wellformed d = (case d of WellFormed w \<Rightarrow> True | _ \<Rightarrow> False)"

definition worldPath :: "host \<Rightarrow> string \<Rightarrow> string" where
  "worldPath h dir = pathJoin h (pathJoin h (cwd h) dir) ''world.json''"

definition view_of :: "host \<Rightarrow> runtime \<Rightarrow> string \<Rightarrow> world_view option" where
  "view_of h rt dir =
     (case descriptor_at h (worldPath h dir) of
        WellFormed w \<Rightarrow> Some \<lparr>descriptor = w, directory = dir, isRunning = probe rt (w_image w)\<rparr>
      | _ \<Rightarrow> None)"

definition fresh_views :: "host \<Rightarrow> runtime \<Rightarrow> world_view list" where
  "fresh_views h rt = List.map_filter (view_of h rt) (subdirs h (cwd h))"

definition load_warning :: "host \<Rightarrow> string \<Rightarrow> msg list" where
  "load_warning h dir =
     (if descriptor_at h (worldPath h dir) = Malformed then [FailedToLoad dir] else [])"

definition catalogRoot :: "host \<Rightarrow> string" where
  "catalogRoot h = pathJoin h (homedir h) ''docker-worlds''"

definition catalogPath :: "host \<Rightarrow> string \<Rightarrow> string" where
  "catalogPath h dirent = pathJoin h (pathJoin h (catalogRoot h) dirent) ''world.json''"

definition catalog_notice :: "host \<Rightarrow> string \<Rightarrow> msg" where
  "catalog_notice h dirent =
     (case descriptor_at h (catalogPath h dirent) of
        Missing \<Rightarrow> CatalogSkipped dirent
      | Malformed \<Rightarrow> CatalogParseFailed dirent
      | WellFormed w \<Rightarrow> CatalogFound (w_name w))"


text \<open>The entry the catalog scan pushes for a directory, if any.\<close>

definition catalog_found :: "host \<Rightarrow> string \<Rightarrow> catalog_entry option" where
  "catalog_found h dirent =
     (case descriptor_at h (catalogPath h dirent) of
        WellFormed w \<Rightarrow> Some (catalog_entry_of w dirent)
      | _ \<Rightarrow> None)"

text \<open>
  The cursor is on an element of the list; \<open>settled\<close> asks it of a portal that has
  not exited.
\<close>

definition in_range :: "portal \<Rightarrow> bool" where
  "in_range p = (0 \<le> selectedIndex p \<and> selectedIndex p < int (length (worlds p)))"

definition settled :: "portal \<Rightarrow> bool" where
  "settled p = (if exited p = None then in_range p else True)"

section \<open>Well-formed runtime data\<close>

text \<open>
  A container identifier is a non-empty word without white space, and a container name
  has no line break: what \<^verbatim>\<open>docker ps\<close> prints one container per line for.
\<close>

definition wf_container :: "container \<Rightarrow> bool" where
  "wf_container c =
     (cid c \<noteq> [] \<and> list_all (\<lambda>ch. \<not> is_space ch) (cid c) \<and> newline \<notin> set (cname c))"

definition ps_lines :: "(container \<Rightarrow> string) \<Rightarrow> container list \<Rightarrow> string" where
  "ps_lines fmt cs = concat (map (\<lambda>c. fmt c @ [newline]) cs)"

text \<open>What the loop of world-stop prints for one identifier.\<close>

definition stop_report :: "runtime \<Rightarrow> string \<Rightarrow> msg list" where
  "stop_report rt i =
     StoppingContainer i # (if i \<in> set (stuck rt) then [FailedToStop i] else [])"

section \<open>Example data\<close>

text \<open>
  A host with one world, \<^verbatim>\<open>demo\<close>, and some states of the runtime.
\<close>

definition demo_world :: world where
  "demo_world =
     \<lparr>w_name = JStr ''demo'', w_image = ''x/demo'', w_description = JStr ''A demo world'',
      w_entry = JStr ''npm start'', w_type = JStr ''web'', w_port = JNum 9000,
      w_tags = JArr [JStr ''demo''], w_volumeMount = JUndefined\<rparr>"

definition demo_host :: host where
  "demo_host =
     \<lparr>cwd = ''/w'', homedir = ''/home/u'', platform = ''linux'',
      pathResolve = (\<lambda>p. ''/w/'' @ p), pathJoin = (\<lambda>a b. a @ ''/'' @ b),
      existsSync = (\<lambda>p. p = ''/w/demo/world.json''),
      readJson = (\<lambda>p. if p = ''/w/demo/world.json'' then Some demo_world else None),
      subdirs = (\<lambda>d. [''demo'']), portText = (\<lambda>v. ''9000''), inspectOk = (\<lambda>i. False),
      buildStatus = (\<lambda>i d. Some 1), runStatus = (\<lambda>a. Some 0)\<rparr>"

definition two_running :: runtime where
  "two_running =
     \<lparr>daemonUp = True,
      running = [\<lparr>cid = ''a1'', cname = ''n1'', ancestry = [''x/demo'']\<rparr>,
                 \<lparr>cid = ''b2'', cname = ''n2'', ancestry = [''x/demo'']\<rparr>],
      stuck = []\<rparr>"

definition none_running :: runtime where
  "none_running = \<lparr>daemonUp = True, running = [], stuck = []\<rparr>"

text \<open>
  The host of the world \<^verbatim>\<open>demo\<close> with another descriptor in its
  \<^verbatim>\<open>world.json\<close>, with every image present locally, and with a
  \<^verbatim>\<open>Dockerfile\<close> whose build ends with a given status.
\<close>

definition world_host :: "world \<Rightarrow> host" where
  "world_host w =
     demo_host\<lparr>readJson := (\<lambda>p. if p = ''/w/demo/world.json'' then Some w else None)\<rparr>"

definition with_image :: "host \<Rightarrow> host" where
  "with_image h = h\<lparr>inspectOk := (\<lambda>i. True)\<rparr>"

definition with_dockerfile :: "host \<Rightarrow> int option \<Rightarrow> host" where
  "with_dockerfile h st =
     h\<lparr>existsSync := (\<lambda>p. p = ''/w/demo/world.json'' \<or> p = ''/w/demo/Dockerfile''),
       buildStatus := (\<lambda>i d. st)\<rparr>"

definition game_world :: world where
  "game_world = demo_world\<lparr>w_name := JStr ''game'', w_image := ''x/game'', w_type := JStr ''game''\<rparr>"

definition cli_world :: world where
  "cli_world = demo_world\<lparr>w_name := JStr ''tool'', w_image := ''x/tool'', w_type := JStr ''cli''\<rparr>"

definition mounted_world :: world where
  "mounted_world = demo_world\<lparr>w_volumeMount := JBool True\<rparr>"

text \<open>
  A runtime that cannot be reached; the element of \<^verbatim>\<open>this.worlds\<close> for the world
  \<^verbatim>\<open>demo\<close>; and hosts whose scan root holds a directory without a descriptor, a
  directory with a malformed one, and three worlds.
\<close>

definition daemon_down :: runtime where
  "daemon_down = \<lparr>daemonUp = False, running = [], stuck = []\<rparr>"

definition demo_view :: "bool \<Rightarrow> world_view" where
  "demo_view r = \<lparr>descriptor = demo_world, directory = ''demo'', isRunning = r\<rparr>"

definition sparse_host :: host where
  "sparse_host = demo_host\<lparr>subdirs := (\<lambda>d. [''empty'', ''demo''])\<rparr>"

definition mixed_host :: host where
  "mixed_host =
     demo_host\<lparr>subdirs := (\<lambda>d. [''broken'', ''demo'']),
               existsSync := (\<lambda>p. p \<in> set [''/w/broken/world.json'', ''/w/demo/world.json'',
                                   ''/home/u/docker-worlds/broken/world.json'',
                                   ''/home/u/docker-worlds/demo/world.json'']),
               readJson := (\<lambda>p. if p \<in> set [''/w/demo/world.json'',
                                   ''/home/u/docker-worlds/demo/world.json'']
                                 then Some demo_world else None)\<rparr>"

definition three_host :: host where
  "three_host =
     demo_host\<lparr>subdirs := (\<lambda>d. [''a'', ''b'', ''c'']), existsSync := (\<lambda>p. True),
               readJson := (\<lambda>p. Some demo_world)\<rparr>"

text \<open>The key \<^verbatim>\<open>down\<close> on the host with three worlds.\<close>

definition down :: "host \<times> runtime \<times> event" where
  "down = (three_host, none_running, Keypress KeyDown)"

definition one_stuck :: runtime where
  "one_stuck =
     \<lparr>daemonUp = True,
      running = [\<lparr>cid = ''a1'', cname = ''n1'', ancestry = [''x/demo'']\<rparr>,
                 \<lparr>cid = ''b2'', cname = ''n2'', ancestry = [''x/demo'']\<rparr>,
                 \<lparr>cid = ''c3'', cname = ''other'', ancestry = [''x/other'']\<rparr>],
      stuck = [''a1'']\<rparr>"


section \<open>Splitting and trimming the output of docker ps\<close>

lemma js_split_nonempty: "js_split sep s \<noteq> []"
  by (induction s) (auto split: list.splits)

lemma js_split_no_sep: "sep \<notin> set a \<Longrightarrow> js_split sep a = [a]"
  by (induction a) auto

lemma js_split_at_sep: "sep \<notin> set a \<Longrightarrow> js_split sep (a @ sep # b) = a # js_split sep b"
  by (induction a) auto

lemma first_field_id:
  assumes "CHR '' '' \<notin> set i" and "t = [] \<or> hd t = CHR '' ''"
  shows "first_field (i @ t) = i"
proof (cases t)
  case Nil
  with assms show ?thesis by (simp add: first_field_def js_split_no_sep)
next
  case (Cons x t')
  with assms have "x = CHR '' ''" by simp
  with Cons assms show ?thesis by (simp add: first_field_def js_split_at_sep)
qed

lemma trimEnd_append:
  "trimEnd (a @ b) = (if list_all is_space b then trimEnd a else a @ trimEnd b)"
  by (simp add: trimEnd_def dropWhile_append list_all_iff)

lemma trimEnd_set: "set (trimEnd s) \<subseteq> set s"
proof -
  have "set (dropWhile is_space (rev s)) \<subseteq> set (rev s)" by (rule set_dropWhileD[THEN subsetI]) 
  then show ?thesis by (simp add: trimEnd_def)
qed

lemma trimEnd_hd: "trimEnd s \<noteq> [] \<Longrightarrow> hd (trimEnd s) = hd s"
proof (induction s)
  case Nil then show ?case by (simp add: trimEnd_def)
next
  case (Cons x xs)
  have "trimEnd (x # xs) = trimEnd ([x] @ xs)" by simp
  also have "\<dots> = (if list_all is_space xs then trimEnd [x] else [x] @ trimEnd xs)"
    by (rule trimEnd_append)
  finally have e: "trimEnd (x # xs) = (if list_all is_space xs then trimEnd [x] else [x] @ trimEnd xs)" .
  show ?case
  proof (cases "list_all is_space xs")
    case True
    with e Cons.prems show ?thesis by (auto simp: trimEnd_def split: if_splits)
  next
    case False
    with e show ?thesis by simp
  qed
qed

lemma trimEnd_keeps: "a \<noteq> [] \<Longrightarrow> \<not> is_space (last a) \<Longrightarrow> trimEnd (a @ b) = a @ trimEnd b"
proof -
  assume a: "a \<noteq> []" and l: "\<not> is_space (last a)"
  have ta: "trimEnd a = a" using a l by (simp add: trimEnd_def hd_rev)
      (metis dropWhile_eq_self_iff hd_rev rev_rev_ident)
  have tb: "list_all is_space b \<Longrightarrow> trimEnd b = []"
    by (simp add: trimEnd_def list_all_iff)
  show ?thesis using ta tb by (simp add: trimEnd_append)
qed


lemma is_space_newline: "is_space newline"
  by (simp add: is_space_def newline_def)

lemma is_space_blank: "is_space (CHR '' '')"
  by (simp add: is_space_def)

lemma trimEnd_all_space: "list_all is_space b \<Longrightarrow> trimEnd b = []"
  by (simp add: trimEnd_def list_all_iff)

lemma wf_cid_facts:
  assumes "wf_container c"
  shows "cid c \<noteq> []" and "\<not> is_space (last (cid c))" and "\<not> is_space (hd (cid c))"
    and "CHR '' '' \<notin> set (cid c)" and "newline \<notin> set (cid c)"
proof -
  from assms show ne: "cid c \<noteq> []" by (simp add: wf_container_def)
  from assms have all: "\<forall>ch \<in> set (cid c). \<not> is_space ch"
    by (simp add: wf_container_def list_all_iff)
  from ne all show "\<not> is_space (last (cid c))" by simp
  from ne all show "\<not> is_space (hd (cid c))" by simp
  from all is_space_blank show "CHR '' '' \<notin> set (cid c)" by blast
  from all is_space_newline show "newline \<notin> set (cid c)" by blast
qed

lemma trimEnd_tail_facts:
  assumes "newline \<notin> set n"
  defines "t \<equiv> trimEnd (CHR '' '' # n @ [newline])"
  shows "newline \<notin> set t" and "t = [] \<or> hd t = CHR '' ''"
proof -
  have "trimEnd ((CHR '' '' # n) @ [newline]) = trimEnd (CHR '' '' # n)"
    by (simp only: trimEnd_append) (simp add: is_space_newline)
  then have t: "t = trimEnd (CHR '' '' # n)" by (simp add: t_def)
  have "set t \<subseteq> set (CHR '' '' # n)" unfolding t by (rule trimEnd_set)
  with assms(1) show "newline \<notin> set t" by (auto simp: newline_def)
  show "t = [] \<or> hd t = CHR '' ''" unfolding t using trimEnd_hd[of "CHR '' '' # n"] by auto
qed

lemma parse_trimEnd_lines:
  assumes "cs \<noteq> []" and "list_all wf_container cs"
  shows "trimEnd (ps_lines fmt_id_names cs) \<noteq> [] \<and>
         map first_field (js_split newline (trimEnd (ps_lines fmt_id_names cs))) = map cid cs"
  using assms
proof (induction cs rule: list_nonempty_induct)
  case (single c)
  then have wf: "wf_container c" by simp
  define t where "t = trimEnd (CHR '' '' # cname c @ [newline])"
  from wf have nl: "newline \<notin> set (cname c)" by (simp add: wf_container_def)
  have line: "ps_lines fmt_id_names [c] = cid c @ (CHR '' '' # cname c @ [newline])"
    by (simp add: ps_lines_def fmt_id_names_def)
  have tr: "trimEnd (ps_lines fmt_id_names [c]) = cid c @ t"
    unfolding line t_def using wf_cid_facts(1,2)[OF wf] by (rule trimEnd_keeps)
  have t1: "newline \<notin> set t" and t2: "t = [] \<or> hd t = CHR '' ''"
    unfolding t_def using trimEnd_tail_facts[OF nl] by simp_all
  have "js_split newline (cid c @ t) = [cid c @ t]"
    using t1 wf_cid_facts(5)[OF wf] by (simp add: js_split_no_sep)
  moreover have "first_field (cid c @ t) = cid c"
    using wf_cid_facts(4)[OF wf] t2 by (rule first_field_id)
  ultimately show ?case using tr wf_cid_facts(1)[OF wf] by simp
next
  case (cons c cs)
  then have wf: "wf_container c" and wfs: "list_all wf_container cs" by simp_all
  from cons.IH[OF wfs]
  have ne: "trimEnd (ps_lines fmt_id_names cs) \<noteq> []"
    and ih: "map first_field (js_split newline (trimEnd (ps_lines fmt_id_names cs))) = map cid cs"
    by simp_all
  from wf have nl: "newline \<notin> set (cname c)" by (simp add: wf_container_def)
  define a where "a = cid c @ CHR '' '' # cname c"
  define r where "r = ps_lines fmt_id_names cs"
  have line: "ps_lines fmt_id_names (c # cs) = a @ (newline # r)"
    by (simp add: ps_lines_def fmt_id_names_def a_def r_def)
  have nsp: "\<not> list_all is_space r"
    using ne trimEnd_all_space[of r] by (auto simp: r_def)
  then have nsp': "\<not> list_all is_space (newline # r)" by simp
  have "trimEnd ([newline] @ r) = [newline] @ trimEnd r"
    using nsp by (simp only: trimEnd_append if_False)
  then have tr1: "trimEnd (newline # r) = newline # trimEnd r" by simp
  have tr: "trimEnd (ps_lines fmt_id_names (c # cs)) = a @ newline # trimEnd r"
    unfolding line using nsp' tr1 by (simp only: trimEnd_append if_False)
  have "newline \<notin> set a" using nl wf_cid_facts(5)[OF wf] by (auto simp: a_def newline_def)
  then have sp: "js_split newline (a @ newline # trimEnd r) = a # js_split newline (trimEnd r)"
    by (rule js_split_at_sep)
  have "first_field (cid c @ (CHR '' '' # cname c)) = cid c"
    using wf_cid_facts(4)[OF wf] by (rule first_field_id) simp
  then have ff: "first_field a = cid c" by (simp add: a_def)
  show ?case using tr sp ff ih by (simp add: r_def)
qed

lemma dropWhile_lines:
  assumes "list_all wf_container cs"
  shows "dropWhile is_space (ps_lines fmt_id_names cs) = ps_lines fmt_id_names cs"
proof (cases cs)
  case Nil then show ?thesis by (simp add: ps_lines_def)
next
  case (Cons c cs')
  with assms have wf: "wf_container c" by simp
  obtain x xs where x: "cid c = x # xs" using wf_cid_facts(1)[OF wf] by (cases "cid c") auto
  with wf_cid_facts(3)[OF wf] have "\<not> is_space x" by simp
  then show ?thesis using Cons x by (simp add: ps_lines_def fmt_id_names_def)
qed

lemma parse_ps_output:
  assumes "cs \<noteq> []" and "list_all wf_container cs"
  shows "js_trim (ps_lines fmt_id_names cs) \<noteq> []"
    and "map first_field (js_split newline (js_trim (ps_lines fmt_id_names cs))) = map cid cs"
  using parse_trimEnd_lines[OF assms] dropWhile_lines[OF assms(2)]
  by (simp_all add: js_trim_def)

section \<open>world-stop: the loop and the script\<close>

lemma stop_containers_calls: "fst (fst (stop_containers rt ids)) = map stop_cmd ids"
  by (induction ids arbitrary: rt) (simp_all add: case_prod_beta)

lemma docker_stop_daemonUp: "daemonUp (snd (docker_stop rt i)) = daemonUp rt"
  by (simp add: docker_stop_def)

lemma docker_stop_stuck: "stuck (snd (docker_stop rt i)) = stuck rt"
  by (simp add: docker_stop_def)

lemma docker_stop_ok:
  "fst (docker_stop rt i) = (daemonUp rt \<and> i \<in> set (map cid (running rt)) \<and> i \<notin> set (stuck rt))"
  by (simp add: docker_stop_def)

lemma filter_cid_id: "i \<notin> cid ` set cs \<Longrightarrow> filter (\<lambda>c. cid c \<noteq> i) cs = cs"
  by (induction cs) auto

lemma docker_stop_running:
  assumes "daemonUp rt"
  shows "running (snd (docker_stop rt i)) =
         filter (\<lambda>c. cid c \<noteq> i \<or> i \<in> set (stuck rt)) (running rt)"
proof (cases "i \<in> set (stuck rt)")
  case True
  then show ?thesis by (simp add: docker_stop_def)
next
  case False
  then show ?thesis using assms by (auto simp: docker_stop_def filter_cid_id)
qed

lemma stop_containers_runtime:
  "daemonUp rt \<Longrightarrow>
   snd (stop_containers rt ids) =
     rt\<lparr>running := filter (\<lambda>c. cid c \<notin> set ids \<or> cid c \<in> set (stuck rt)) (running rt)\<rparr>"
proof (induction ids arbitrary: rt)
  case Nil
  then show ?case by simp
next
  case (Cons i ids)
  define rt1 where "rt1 = snd (docker_stop rt i)"
  have up: "daemonUp rt1" using Cons.prems by (simp add: rt1_def docker_stop_daemonUp)
  have st: "stuck rt1 = stuck rt" by (simp add: rt1_def docker_stop_stuck)
  have rn: "running rt1 = filter (\<lambda>c. cid c \<noteq> i \<or> i \<in> set (stuck rt)) (running rt)"
    using Cons.prems by (simp add: rt1_def docker_stop_running)
  have rest: "rt1 = rt\<lparr>running := running rt1\<rparr>"
    by (simp add: rt1_def docker_stop_def)
  have "snd (stop_containers rt (i # ids)) = snd (stop_containers rt1 ids)"
    by (simp add: rt1_def split: prod.splits)
  also have "\<dots> = rt1\<lparr>running := filter (\<lambda>c. cid c \<notin> set ids \<or> cid c \<in> set (stuck rt1)) (running rt1)\<rparr>"
    by (rule Cons.IH[OF up])
  also have "\<dots> = rt\<lparr>running := filter (\<lambda>c. cid c \<notin> set ids \<or> cid c \<in> set (stuck rt)) (running rt1)\<rparr>"
    by (subst rest) (simp add: st)
  also have "filter (\<lambda>c. cid c \<notin> set ids \<or> cid c \<in> set (stuck rt)) (running rt1)
      = filter (\<lambda>c. cid c \<notin> set (i # ids) \<or> cid c \<in> set (stuck rt)) (running rt)"
    unfolding rn by (auto intro: filter_cong)
  finally show ?case .
qed

lemma stop_containers_reports:
  "daemonUp rt \<Longrightarrow> distinct ids \<Longrightarrow> set ids \<subseteq> cid ` set (running rt) \<Longrightarrow>
   snd (fst (stop_containers rt ids)) = concat (map (stop_report rt) ids)"
proof (induction ids arbitrary: rt)
  case Nil
  then show ?case by simp
next
  case (Cons i ids)
  define rt1 where "rt1 = snd (docker_stop rt i)"
  have up: "daemonUp rt1" using Cons.prems by (simp add: rt1_def docker_stop_daemonUp)
  have st: "stuck rt1 = stuck rt" by (simp add: rt1_def docker_stop_stuck)
  have rn: "running rt1 = filter (\<lambda>c. cid c \<noteq> i \<or> i \<in> set (stuck rt)) (running rt)"
    using Cons.prems by (simp add: rt1_def docker_stop_running)
  have sub: "set ids \<subseteq> cid ` set (running rt1)"
  proof
    fix x assume x: "x \<in> set ids"
    with Cons.prems(2) have "x \<noteq> i" by auto
    moreover from x Cons.prems(3) obtain c where "c \<in> set (running rt)" and "cid c = x"
      by auto
    ultimately show "x \<in> cid ` set (running rt1)" unfolding rn by force
  qed
  have ok: "fst (docker_stop rt i) = (i \<notin> set (stuck rt))"
    using Cons.prems by (auto simp: docker_stop_ok)
  have sr: "stop_report rt1 = stop_report rt"
    by (simp add: fun_eq_iff stop_report_def st)
  have ih: "snd (fst (stop_containers rt1 ids)) = concat (map (stop_report rt) ids)"
    using Cons.IH[OF up _ sub] Cons.prems(2) by (simp add: sr)
  have stp: "snd (fst (stop_containers rt (i # ids))) =
        (StoppingContainer i # (if fst (docker_stop rt i) then [] else [FailedToStop i]))
          @ snd (fst (stop_containers rt1 ids))"
    by (simp add: rt1_def case_prod_beta)
  have "stop_report rt i =
        StoppingContainer i # (if fst (docker_stop rt i) then [] else [FailedToStop i])"
    using ok by (simp add: stop_report_def)
  then show ?case using stp ih by simp
qed

lemma no_terminate_ps: "\<not> is_terminate (ps_stop_cmd img)"
  by (simp add: is_terminate_def ps_stop_cmd_def startsWith_def)

lemma docker_ps_lines:
  "docker_ps rt img fmt = (if daemonUp rt then Some (ps_lines fmt (instances rt img)) else None)"
  by (simp add: docker_ps_def ps_lines_def)

lemma ps_lines_Nil: "ps_lines fmt [] = []"
  by (simp add: ps_lines_def)

lemma js_trim_Nil: "js_trim [] = []"
  by (simp add: js_trim_def trimEnd_def)

lemma world_stop_idle:
  assumes "loadWorldJson h (argDir argv) = Inr w" and "daemonUp rt"
    and "instances rt (w_image w) = []"
  shows "world_stop h rt argv =
    (\<lparr>status = 0, calls = [ps_stop_cmd (w_image w)],
      out = [LookingForContainer (w_image w), NoRunningContainer (w_image w)]\<rparr>, rt)"
  using assms by (simp add: world_stop_def docker_ps_lines ps_lines_Nil js_trim_Nil Let_def)

lemma world_stop_busy:
  assumes "loadWorldJson h (argDir argv) = Inr w" and "daemonUp rt"
    and "instances rt (w_image w) \<noteq> []" and "list_all wf_container (instances rt (w_image w))"
  shows "world_stop h rt argv =
    (\<lparr>status = 0,
      calls = ps_stop_cmd (w_image w) # fst (fst (stop_containers rt (map cid (instances rt (w_image w))))),
      out = LookingForContainer (w_image w) # snd (fst (stop_containers rt (map cid (instances rt (w_image w)))))
            @ [ContainersStopped (length (instances rt (w_image w)))]\<rparr>,
     snd (stop_containers rt (map cid (instances rt (w_image w)))))"
  using assms parse_ps_output[OF assms(3,4)]
  by (simp add: world_stop_def docker_ps_lines Let_def split: prod.splits)

lemma world_stop_unreachable:
  assumes "loadWorldJson h (argDir argv) = Inr w" and "\<not> daemonUp rt"
  shows "world_stop h rt argv =
    (\<lparr>status = 1, calls = [ps_stop_cmd (w_image w)],
      out = [LookingForContainer (w_image w), FailedDockerPs]\<rparr>, rt)"
  using assms by (simp add: world_stop_def docker_ps_def Let_def)

section \<open>Properties of world-stop\<close>

lemma load_demo: "loadWorldJson demo_host (argDir [''demo'']) = Inr demo_world"
  by (simp add: loadWorldJson_def argDir_def demo_host_def)

text \<open>
  Two runs of world-stop on the world \<^verbatim>\<open>demo\<close>. With no instance running and a
  runtime that cannot be reached, the script ends with status 1. With two instances, one
  of which cannot be stopped, the first stop ends with status 0 and a second stop right
  after it asks the runtime to stop that instance again.
\<close>

theorem stop_unreachable_or_repeated_not_noop:
  "instances daemon_down (w_image demo_world) = []
   \<and> status (fst (world_stop demo_host daemon_down [''demo''])) = 1
   \<and> status (fst (world_stop demo_host one_stuck [''demo''])) = 0
   \<and> calls (fst (world_stop demo_host (snd (world_stop demo_host one_stuck [''demo''])) [''demo'']))
       = [ps_stop_cmd ''x/demo'', stop_cmd ''a1'']
   \<and> filter is_terminate
        (calls (fst (world_stop demo_host (snd (world_stop demo_host one_stuck [''demo''])) [''demo''])))
       = [stop_cmd ''a1'']"
proof -
  have i: "w_image demo_world = ''x/demo''" by (simp add: demo_world_def)
  have a: "instances daemon_down (w_image demo_world) = []"
    by (simp add: instances_def daemon_down_def)
  have down: "\<not> daemonUp daemon_down" by (simp add: daemon_down_def)
  have b: "status (fst (world_stop demo_host daemon_down [''demo''])) = 1"
    using world_stop_unreachable[OF load_demo down] by simp
  have up: "daemonUp one_stuck" by (simp add: one_stuck_def)
  define a1 where "a1 = \<lparr>cid = ''a1'', cname = ''n1'', ancestry = [''x/demo'']\<rparr>"
  define b2 where "b2 = \<lparr>cid = ''b2'', cname = ''n2'', ancestry = [''x/demo'']\<rparr>"
  define c3 where "c3 = \<lparr>cid = ''c3'', cname = ''other'', ancestry = [''x/other'']\<rparr>"
  have r: "running one_stuck = [a1, b2, c3]" and st: "stuck one_stuck = [''a1'']"
    by (simp_all add: one_stuck_def a1_def b2_def c3_def)
  have i1: "instances one_stuck (w_image demo_world) = [a1, b2]"
    by (simp add: instances_def r i a1_def b2_def c3_def)
  have wfa: "wf_container a1" and wfb: "wf_container b2"
    by (simp_all add: wf_container_def is_space_def newline_def a1_def b2_def)
  have wf1: "list_all wf_container (instances one_stuck (w_image demo_world))"
    unfolding i1 using wfa wfb by simp
  have ne1: "instances one_stuck (w_image demo_world) \<noteq> []" unfolding i1 by simp
  define rt1 where "rt1 = snd (world_stop demo_host one_stuck [''demo''])"
  have "rt1 = snd (stop_containers one_stuck (map cid (instances one_stuck (w_image demo_world))))"
    unfolding rt1_def using world_stop_busy[OF load_demo up ne1 wf1] by simp
  also have "\<dots> = one_stuck\<lparr>running :=
      filter (\<lambda>c. cid c \<notin> set (map cid (instances one_stuck (w_image demo_world)))
                  \<or> cid c \<in> set (stuck one_stuck)) (running one_stuck)\<rparr>"
    by (rule stop_containers_runtime[OF up])
  also have "\<dots> = one_stuck\<lparr>running := [a1, c3]\<rparr>"
    unfolding i1 r st by (simp add: a1_def b2_def c3_def)
  finally have rt1: "rt1 = one_stuck\<lparr>running := [a1, c3]\<rparr>" .
  have up1: "daemonUp rt1" by (simp add: rt1 up)
  have i2: "instances rt1 (w_image demo_world) = [a1]"
    by (simp add: instances_def rt1 i a1_def c3_def)
  have wf2: "list_all wf_container (instances rt1 (w_image demo_world))"
    unfolding i2 using wfa by simp
  have ne2: "instances rt1 (w_image demo_world) \<noteq> []" unfolding i2 by simp
  have c0: "status (fst (world_stop demo_host one_stuck [''demo''])) = 0"
    using world_stop_busy[OF load_demo up ne1 wf1] by simp
  have "calls (fst (world_stop demo_host rt1 [''demo''])) =
        ps_stop_cmd (w_image demo_world)
          # fst (fst (stop_containers rt1 (map cid (instances rt1 (w_image demo_world)))))"
    using world_stop_busy[OF load_demo up1 ne2 wf2] by simp
  also have "\<dots> = ps_stop_cmd (w_image demo_world)
                      # map stop_cmd (map cid (instances rt1 (w_image demo_world)))"
    by (simp only: stop_containers_calls)
  also have "\<dots> = [ps_stop_cmd ''x/demo'', stop_cmd ''a1'']"
    unfolding i2 by (simp add: i a1_def)
  finally have c: "calls (fst (world_stop demo_host rt1 [''demo''])) =
                   [ps_stop_cmd ''x/demo'', stop_cmd ''a1'']" .
  have t: "is_terminate (stop_cmd ''a1'')"
    by (simp add: is_terminate_def stop_cmd_def startsWith_def)
  have d: "filter is_terminate (calls (fst (world_stop demo_host rt1 [''demo''])))
           = [stop_cmd ''a1'']"
    unfolding c using t by (simp add: no_terminate_ps)
  show ?thesis using a b c0 c d unfolding rt1_def by simp
qed

text \<open>
  C3 (amended). For every world with zero running instances, stop issues zero terminate
  calls to the runtime and leaves it as it is; it succeeds (exit status 0) when the
  runtime answers the probe, and ends with status 1 when the probe errors. A second stop
  right after a stop, with no launch in between, is a no-op (exit status 0, zero
  terminate calls, runtime unchanged) when the runtime answered the first one and every
  terminate request of the first one succeeded: the first one has then left no instance
  running.
\<close>

theorem stop_idle_world_is_noop:
  assumes load: "loadWorldJson h (argDir argv) = Inr w"
  shows "(instances rt (w_image w) = [] \<longrightarrow>
            status (fst (world_stop h rt argv)) = (if daemonUp rt then 0 else 1)
          \<and> filter is_terminate (calls (fst (world_stop h rt argv))) = []
          \<and> snd (world_stop h rt argv) = rt)
       \<and> (daemonUp rt
          \<and> list_all wf_container (instances rt (w_image w))
          \<and> list_all (\<lambda>c. cid c \<notin> set (stuck rt)) (instances rt (w_image w)) \<longrightarrow>
            (let rt1 = snd (world_stop h rt argv)
             in instances rt1 (w_image w) = []
              \<and> status (fst (world_stop h rt1 argv)) = 0
              \<and> filter is_terminate (calls (fst (world_stop h rt1 argv))) = []
              \<and> snd (world_stop h rt1 argv) = rt1))"
proof -
  have idle: "status (fst (world_stop h r argv)) = 0
          \<and> filter is_terminate (calls (fst (world_stop h r argv))) = []
          \<and> snd (world_stop h r argv) = r"
    if "daemonUp r" and "instances r (w_image w) = []" for r
    using world_stop_idle[OF load that] by (simp add: no_terminate_ps)
  have unreachable: "status (fst (world_stop h rt argv)) = 1
          \<and> filter is_terminate (calls (fst (world_stop h rt argv))) = []
          \<and> snd (world_stop h rt argv) = rt"
    if "\<not> daemonUp rt"
    using world_stop_unreachable[OF load that] by (simp add: no_terminate_ps)
  have first: "status (fst (world_stop h rt argv)) = (if daemonUp rt then 0 else 1)
          \<and> filter is_terminate (calls (fst (world_stop h rt argv))) = []
          \<and> snd (world_stop h rt argv) = rt"
    if "instances rt (w_image w) = []"
    using idle[OF _ that] unreachable by (cases "daemonUp rt") simp_all
  have again: "daemonUp (snd (world_stop h rt argv)) \<and>
               instances (snd (world_stop h rt argv)) (w_image w) = []"
    if up: "daemonUp rt"
      and wf: "list_all wf_container (instances rt (w_image w))"
      and free: "list_all (\<lambda>c. cid c \<notin> set (stuck rt)) (instances rt (w_image w))"
  proof (cases "instances rt (w_image w) = []")
    case True
    with world_stop_idle[OF load up True] up show ?thesis by simp
  next
    case False
    define ids where "ids = map cid (instances rt (w_image w))"
    have rt1: "snd (world_stop h rt argv) =
        rt\<lparr>running := filter (\<lambda>c. cid c \<notin> set ids \<or> cid c \<in> set (stuck rt)) (running rt)\<rparr>"
      using world_stop_busy[OF load up False wf] stop_containers_runtime[OF up, of ids]
      by (simp add: ids_def)
    have "filter (\<lambda>c. w_image w \<in> set (ancestry c))
            (filter (\<lambda>c. cid c \<notin> set ids \<or> cid c \<in> set (stuck rt)) (running rt)) = []"
      using free by (auto simp: filter_empty_conv ids_def instances_def list_all_iff)
    then show ?thesis using up by (simp add: rt1 instances_def)
  qed
  have second: "(let rt1 = snd (world_stop h rt argv)
             in instances rt1 (w_image w) = []
              \<and> status (fst (world_stop h rt1 argv)) = 0
              \<and> filter is_terminate (calls (fst (world_stop h rt1 argv))) = []
              \<and> snd (world_stop h rt1 argv) = rt1)"
    if "daemonUp rt" and "list_all wf_container (instances rt (w_image w))"
      and "list_all (\<lambda>c. cid c \<notin> set (stuck rt)) (instances rt (w_image w))"
    using again[OF that] idle[of "snd (world_stop h rt argv)"] by (simp add: Let_def)
  show ?thesis using first second by blast
qed

theorem stop_idle_world_is_noop_witness:
  "status (fst (world_stop demo_host none_running [''demo''])) = 0
   \<and> filter is_terminate (calls (fst (world_stop demo_host none_running [''demo'']))) = []
   \<and> status (fst (world_stop demo_host daemon_down [''demo''])) = 1
   \<and> filter is_terminate (calls (fst (world_stop demo_host daemon_down [''demo'']))) = []
   \<and> snd (world_stop demo_host two_running [''demo'']) = none_running
   \<and> status (fst (world_stop demo_host (snd (world_stop demo_host two_running [''demo''])) [''demo''])) = 0
   \<and> filter is_terminate
        (calls (fst (world_stop demo_host (snd (world_stop demo_host two_running [''demo''])) [''demo'']))) = []"
proof -
  have up0: "daemonUp none_running" and up2: "daemonUp two_running"
    and down: "\<not> daemonUp daemon_down"
    by (simp_all add: none_running_def two_running_def daemon_down_def)
  have i0: "instances none_running (w_image demo_world) = []"
    by (simp add: instances_def none_running_def)
  have id: "instances daemon_down (w_image demo_world) = []"
    by (simp add: instances_def daemon_down_def)
  have i2: "instances two_running (w_image demo_world) = running two_running"
    by (simp add: instances_def two_running_def demo_world_def)
  have wf: "list_all wf_container (instances two_running (w_image demo_world))"
    unfolding i2 by (simp add: two_running_def wf_container_def is_space_def newline_def)
  have free: "list_all (\<lambda>c. cid c \<notin> set (stuck two_running)) (instances two_running (w_image demo_world))"
    unfolding i2 by (simp add: two_running_def)
  have ne: "instances two_running (w_image demo_world) \<noteq> []"
    unfolding i2 by (simp add: two_running_def)
  have "snd (world_stop demo_host two_running [''demo'']) =
        snd (stop_containers two_running (map cid (instances two_running (w_image demo_world))))"
    using world_stop_busy[OF load_demo up2 ne wf] by simp
  also have "\<dots> = two_running\<lparr>running :=
      filter (\<lambda>c. cid c \<notin> set (map cid (instances two_running (w_image demo_world)))
                  \<or> cid c \<in> set (stuck two_running)) (running two_running)\<rparr>"
    by (rule stop_containers_runtime[OF up2])
  also have "\<dots> = none_running"
    unfolding i2 by (simp add: two_running_def none_running_def)
  finally have r: "snd (world_stop demo_host two_running [''demo'']) = none_running" .
  show ?thesis
    using stop_idle_world_is_noop[OF load_demo, of none_running]
      stop_idle_world_is_noop[OF load_demo, of daemon_down]
      stop_idle_world_is_noop[OF load_demo, of two_running]
      up0 up2 down i0 id wf free r
    by (simp add: Let_def)
qed

text \<open>
  C4. For every world with N running instances (N at least 1), stop issues a terminate
  request against each of the N identifiers, in the order of the listing, whichever of
  them fail; a request that fails is reported for its instance (\<open>FailedToStop\<close>) and
  the loop goes on with the remaining instances; the script ends with status 0.
\<close>

theorem stop_attempts_every_instance:
  assumes load: "loadWorldJson h (argDir argv) = Inr w"
    and up: "daemonUp rt"
    and ids: "distinct (map cid (running rt))"
    and wf: "list_all wf_container (instances rt (w_image w))"
    and ne: "instances rt (w_image w) \<noteq> []"
  shows "calls (fst (world_stop h rt argv)) =
           ps_stop_cmd (w_image w) # map (\<lambda>c. stop_cmd (cid c)) (instances rt (w_image w))
       \<and> out (fst (world_stop h rt argv)) =
           LookingForContainer (w_image w)
             # concat (map (\<lambda>c. stop_report rt (cid c)) (instances rt (w_image w)))
             @ [ContainersStopped (length (instances rt (w_image w)))]
       \<and> status (fst (world_stop h rt argv)) = 0"
proof -
  define cs where "cs = instances rt (w_image w)"
  have d: "distinct (map cid cs)"
    using ids by (simp add: cs_def instances_def distinct_map_filter)
  have s: "set (map cid cs) \<subseteq> cid ` set (running rt)"
    by (auto simp: cs_def instances_def)
  have "snd (fst (stop_containers rt (map cid cs))) = concat (map (stop_report rt) (map cid cs))"
    using up d s by (rule stop_containers_reports)
  then have rep: "snd (fst (stop_containers rt (map cid cs))) =
                  concat (map (\<lambda>c. stop_report rt (cid c)) cs)"
    by (simp add: comp_def)
  have cl: "fst (fst (stop_containers rt (map cid cs))) = map (\<lambda>c. stop_cmd (cid c)) cs"
    by (simp add: stop_containers_calls comp_def)
  show ?thesis
    using world_stop_busy[OF load up ne wf] rep cl by (simp add: cs_def)
qed

theorem stop_attempts_every_instance_witness:
  "calls (fst (world_stop demo_host one_stuck [''demo''])) =
     [ps_stop_cmd ''x/demo'', stop_cmd ''a1'', stop_cmd ''b2'']
   \<and> out (fst (world_stop demo_host one_stuck [''demo''])) =
     [LookingForContainer ''x/demo'', StoppingContainer ''a1'', FailedToStop ''a1'',
      StoppingContainer ''b2'', ContainersStopped 2]
   \<and> status (fst (world_stop demo_host one_stuck [''demo''])) = 0"
proof -
  have up: "daemonUp one_stuck" by (simp add: one_stuck_def)
  have d: "distinct (map cid (running one_stuck))" by (simp add: one_stuck_def)
  have i: "instances one_stuck (w_image demo_world) =
           [\<lparr>cid = ''a1'', cname = ''n1'', ancestry = [''x/demo'']\<rparr>,
            \<lparr>cid = ''b2'', cname = ''n2'', ancestry = [''x/demo'']\<rparr>]"
    by (simp add: instances_def one_stuck_def demo_world_def)
  have wf: "list_all wf_container (instances one_stuck (w_image demo_world))"
    unfolding i by (simp add: wf_container_def is_space_def newline_def)
  have ne: "instances one_stuck (w_image demo_world) \<noteq> []"
    unfolding i by simp
  have w: "w_image demo_world = ''x/demo''" by (simp add: demo_world_def)
  have st: "stuck one_stuck = [''a1'']" by (simp add: one_stuck_def)
  show ?thesis
    using stop_attempts_every_instance[OF load_demo up d wf ne]
    unfolding i by (simp add: w stop_report_def st)
qed

section \<open>Properties of world-launch\<close>

lemma ensureImage_no_run: "filter is_run (fst (ensureImage h img dir)) = []"
  by (simp add: ensureImage_def is_run_def inspect_cmd_def build_cmd_def startsWith_def Let_def)

lemma openBrowser_no_run: "\<not> is_run (openBrowser h url)"
  by (simp add: openBrowser_def is_run_def)

lemma world_launch_ensure_failed:
  assumes "loadWorldJson h (inputDir args) = Inr w"
    and "snd (ensureImage h (w_image w) (pathResolve h (inputDir args))) = Some e"
  shows "world_launch h args =
         \<lparr>status = 1, calls = fst (ensureImage h (w_image w) (pathResolve h (inputDir args))),
          out = launch_banner w args @ [e]\<rparr>"
  using assms by (simp add: world_launch_def Let_def case_prod_beta)

lemma world_launch_ensured:
  assumes "loadWorldJson h (inputDir args) = Inr w"
    and "snd (ensureImage h (w_image w) (pathResolve h (inputDir args))) = None"
  shows "world_launch h args =
     (case dockerArgs w (launchPort h (getArg args ''--port'') w) (pathResolve h (inputDir args))
             (launch_detached w args) of
        Inl e \<Rightarrow> \<lparr>status = 1, calls = fst (ensureImage h (w_image w) (pathResolve h (inputDir args))),
                   out = launch_banner w args @ [e]\<rparr>
      | Inr as \<Rightarrow>
          \<lparr>status = 0,
           calls = fst (ensureImage h (w_image w) (pathResolve h (inputDir args)))
                   @ [Spawn ''docker'' as]
                   @ (if w_type w = JStr ''web''
                      then [openBrowser h (''http://localhost:'' @ launchPort h (getArg args ''--port'') w)]
                      else []),
           out = launch_banner w args\<rparr>)"
  using assms by (simp add: world_launch_def Let_def case_prod_beta)

lemma dockerArgs_unknown:
  "w_type w \<noteq> JStr ''web'' \<Longrightarrow> w_type w \<noteq> JStr ''cli'' \<Longrightarrow>
   dockerArgs w port dir d = Inl (UnknownWorldType (w_type w))"
  by (simp add: dockerArgs_def)

text \<open>
  C1 (amended). For every descriptor whose type is neither \<^verbatim>\<open>web\<close> nor
  \<^verbatim>\<open>cli\<close>, launch fails with exit status 1, does not default the type and never
  executes a container run. The image check comes before the type check: its calls
  (\<^verbatim>\<open>docker image inspect\<close>, and \<^verbatim>\<open>docker build\<close> for an absent image with a
  Dockerfile) are the only ones made, and the error reported is the unknown type when the
  image check passes and the image check's own error otherwise.
\<close>

theorem launch_unknown_type_fails:
  assumes load: "loadWorldJson h (inputDir args) = Inr w"
    and nweb: "w_type w \<noteq> JStr ''web''" and ncli: "w_type w \<noteq> JStr ''cli''"
  shows "status (world_launch h args) = 1
       \<and> filter is_run (calls (world_launch h args)) = []
       \<and> calls (world_launch h args) = fst (ensureImage h (w_image w) (pathResolve h (inputDir args)))
       \<and> out (world_launch h args) =
           launch_banner w args @
           [case snd (ensureImage h (w_image w) (pathResolve h (inputDir args))) of
              None \<Rightarrow> UnknownWorldType (w_type w)
            | Some e \<Rightarrow> e]"
proof (cases "snd (ensureImage h (w_image w) (pathResolve h (inputDir args)))")
  case None
  show ?thesis
    using world_launch_ensured[OF load None] dockerArgs_unknown[OF nweb ncli] None
    by (simp add: ensureImage_no_run)
next
  case (Some e)
  show ?thesis
    using world_launch_ensure_failed[OF load Some] Some
    by (simp add: ensureImage_no_run)
qed

lemma inputDir_demo: "inputDir (''demo'' # flags) = ''demo''"
  by (simp add: inputDir_def startsWith_def)

lemma load_world_host: "loadWorldJson (world_host w) ''demo'' = Inr w"
  by (simp add: loadWorldJson_def world_host_def demo_host_def)

lemma load_world_host_image: "loadWorldJson (with_image (world_host w)) ''demo'' = Inr w"
  by (simp add: loadWorldJson_def world_host_def demo_host_def with_image_def)

lemma load_world_host_dockerfile: "loadWorldJson (with_dockerfile (world_host w) st) ''demo'' = Inr w"
  by (simp add: loadWorldJson_def world_host_def demo_host_def with_dockerfile_def)

text \<open>
  The descriptor of type \<^verbatim>\<open>game\<close>, with no local image and no Dockerfile: the
  launch fails, but with the missing Dockerfile as its error.
\<close>

theorem launch_unknown_type_other_error:
  "w_type game_world \<noteq> JStr ''web'' \<and> w_type game_world \<noteq> JStr ''cli''
   \<and> loadWorldJson (world_host game_world) (inputDir [''demo'']) = Inr game_world
   \<and> world_launch (world_host game_world) [''demo''] =
       \<lparr>status = 1, calls = [inspect_cmd ''x/game''], out = [DockerfileNotFound]\<rparr>
   \<and> UnknownWorldType (JStr ''game'') \<notin> set (out (world_launch (world_host game_world) [''demo'']))"
proof -
  have t: "w_type game_world = JStr ''game''" and i: "w_image game_world = ''x/game''"
    by (simp_all add: game_world_def demo_world_def)
  have e: "ensureImage (world_host game_world) ''x/game'' (pathResolve (world_host game_world) ''demo'')
           = ([inspect_cmd ''x/game''], Some DockerfileNotFound)"
    by (simp add: ensureImage_def world_host_def demo_host_def)
  have b: "launch_banner game_world [''demo''] = []"
    by (simp add: launch_banner_def launch_detached_def detachRequested_def t)
  have l: "world_launch (world_host game_world) [''demo''] =
       \<lparr>status = 1, calls = [inspect_cmd ''x/game''], out = [DockerfileNotFound]\<rparr>"
    using world_launch_ensure_failed[of "world_host game_world" "[''demo'']" game_world DockerfileNotFound]
    by (simp add: inputDir_demo load_world_host i e b)
  show ?thesis unfolding l by (simp add: t inputDir_demo load_world_host)
qed

theorem launch_unknown_type_fails_witness:
  "world_launch (with_dockerfile (world_host game_world) (Some 0)) [''demo'', ''--detach''] =
     \<lparr>status = 1, calls = [inspect_cmd ''x/game'', build_cmd ''x/game'' ''/w/demo''],
      out = [DetachedMode, UnknownWorldType (JStr ''game'')]\<rparr>"
proof -
  let ?h = "with_dockerfile (world_host game_world) (Some 0)"
  have t: "w_type game_world = JStr ''game''" and i: "w_image game_world = ''x/game''"
    by (simp_all add: game_world_def demo_world_def)
  have d: "inputDir [''demo'', ''--detach''] = ''demo''" by (rule inputDir_demo)
  have load: "loadWorldJson ?h (inputDir [''demo'', ''--detach'']) = Inr game_world"
    unfolding d by (rule load_world_host_dockerfile)
  have e: "ensureImage ?h ''x/game'' (pathResolve ?h ''demo'')
           = ([inspect_cmd ''x/game'', build_cmd ''x/game'' ''/w/demo''], None)"
    by (simp add: ensureImage_def world_host_def demo_host_def with_dockerfile_def)
  have b: "launch_banner game_world [''demo'', ''--detach''] = [DetachedMode]"
    by (simp add: launch_banner_def launch_detached_def detachRequested_def t)
  have "status (world_launch ?h [''demo'', ''--detach'']) = 1
      \<and> calls (world_launch ?h [''demo'', ''--detach'']) = [inspect_cmd ''x/game'', build_cmd ''x/game'' ''/w/demo'']
      \<and> out (world_launch ?h [''demo'', ''--detach'']) = [DetachedMode, UnknownWorldType (JStr ''game'')]"
    using launch_unknown_type_fails[OF load] by (simp add: t i d e b)
  then show ?thesis by (cases "world_launch ?h [''demo'', ''--detach'']") simp
qed

lemma ensureImage_absent:
  assumes "\<not> inspectOk h img"
  shows "ensureImage h img dir =
     (if existsSync h (pathJoin h dir ''Dockerfile'')
      then ([inspect_cmd img, build_cmd img dir],
            if buildStatus h img dir \<noteq> Some 0 then Some DockerBuildFailed else None)
      else ([inspect_cmd img], Some DockerfileNotFound))"
  using assms by (simp add: ensureImage_def Let_def)

lemma is_build_cmds: "is_build (build_cmd img dir)" "\<not> is_build (inspect_cmd img)"
  "\<not> is_build (openBrowser h url)"
  by (simp_all add: is_build_def build_cmd_def inspect_cmd_def openBrowser_def startsWith_def)

lemma dockerArgs_run:
  "dockerArgs w port dir d = Inr as \<Longrightarrow> take 1 as = [''run'']"
  by (auto simp: dockerArgs_def split: if_splits)

lemma run_not_build: "take 1 as = [''run''] \<Longrightarrow> \<not> is_build (Spawn ''docker'' as)"
  by (simp add: is_build_def)

text \<open>
  C7. For every descriptor whose image is absent locally: if its directory has no
  Dockerfile, the image check fails with \<open>DockerfileNotFound\<close> and the launch ends
  with status 1 after the \<^verbatim>\<open>docker image inspect\<close> that found the image absent,
  with no build and no container run; if the Dockerfile is there, one synchronous
  \<^verbatim>\<open>docker build\<close> is made, and a build status other than 0 ends the launch with
  status 1 (\<open>DockerBuildFailed\<close>), with no second build and no container run.
\<close>

theorem launch_image_absent:
  assumes load: "loadWorldJson h (inputDir args) = Inr w"
    and absent: "\<not> inspectOk h (w_image w)"
  shows "(\<not> existsSync h (pathJoin h (pathResolve h (inputDir args)) ''Dockerfile'') \<longrightarrow>
            world_launch h args =
              \<lparr>status = 1, calls = [inspect_cmd (w_image w)],
               out = launch_banner w args @ [DockerfileNotFound]\<rparr>)
       \<and> (existsSync h (pathJoin h (pathResolve h (inputDir args)) ''Dockerfile'') \<longrightarrow>
            take 2 (calls (world_launch h args)) =
              [inspect_cmd (w_image w), build_cmd (w_image w) (pathResolve h (inputDir args))]
          \<and> filter is_build (calls (world_launch h args)) =
              [build_cmd (w_image w) (pathResolve h (inputDir args))]
          \<and> (buildStatus h (w_image w) (pathResolve h (inputDir args)) \<noteq> Some 0 \<longrightarrow>
                world_launch h args =
                  \<lparr>status = 1,
                   calls = [inspect_cmd (w_image w),
                            build_cmd (w_image w) (pathResolve h (inputDir args))],
                   out = launch_banner w args @ [DockerBuildFailed]\<rparr>))"
proof -
  let ?dir = "pathResolve h (inputDir args)"
  note e = ensureImage_absent[OF absent, of ?dir]
  have a: "world_launch h args =
              \<lparr>status = 1, calls = [inspect_cmd (w_image w)],
               out = launch_banner w args @ [DockerfileNotFound]\<rparr>"
    if "\<not> existsSync h (pathJoin h ?dir ''Dockerfile'')"
    using world_launch_ensure_failed[OF load, of DockerfileNotFound] e that by simp
  have b: "world_launch h args =
                  \<lparr>status = 1, calls = [inspect_cmd (w_image w), build_cmd (w_image w) ?dir],
                   out = launch_banner w args @ [DockerBuildFailed]\<rparr>"
    if "existsSync h (pathJoin h ?dir ''Dockerfile'')" and "buildStatus h (w_image w) ?dir \<noteq> Some 0"
    using world_launch_ensure_failed[OF load, of DockerBuildFailed] e that by simp
  have c: "take 2 (calls (world_launch h args)) = [inspect_cmd (w_image w), build_cmd (w_image w) ?dir]
         \<and> filter is_build (calls (world_launch h args)) = [build_cmd (w_image w) ?dir]"
    if ex: "existsSync h (pathJoin h ?dir ''Dockerfile'')"
  proof (cases "buildStatus h (w_image w) ?dir \<noteq> Some 0")
    case True
    show ?thesis unfolding b[OF ex True] by (simp add: is_build_cmds)
  next
    case False
    with e ex have ok: "snd (ensureImage h (w_image w) ?dir) = None"
      and cs: "fst (ensureImage h (w_image w) ?dir) = [inspect_cmd (w_image w), build_cmd (w_image w) ?dir]"
      by simp_all
    show ?thesis
    proof (cases "dockerArgs w (launchPort h (getArg args ''--port'') w) ?dir (launch_detached w args)")
      case (Inl err)
      then show ?thesis using world_launch_ensured[OF load ok] cs by (simp add: is_build_cmds)
    next
      case (Inr as)
      from dockerArgs_run[OF Inr] have "\<not> is_build (Spawn ''docker'' as)" by (rule run_not_build)
      then show ?thesis using world_launch_ensured[OF load ok] cs Inr by (simp add: is_build_cmds)
    qed
  qed
  show ?thesis using a b c by blast
qed

theorem launch_image_absent_witness:
  "world_launch demo_host [''demo''] =
     \<lparr>status = 1, calls = [inspect_cmd ''x/demo''], out = [DockerfileNotFound]\<rparr>
   \<and> world_launch (with_dockerfile demo_host (Some 1)) [''demo''] =
     \<lparr>status = 1, calls = [inspect_cmd ''x/demo'', build_cmd ''x/demo'' ''/w/demo''],
      out = [DockerBuildFailed]\<rparr>
   \<and> filter is_build (calls (world_launch (with_dockerfile demo_host (Some 0)) [''demo''])) =
     [build_cmd ''x/demo'' ''/w/demo'']"
proof -
  have d: "inputDir [''demo''] = ''demo''" by (rule inputDir_demo)
  have i: "w_image demo_world = ''x/demo''" by (simp add: demo_world_def)
  have b: "launch_banner demo_world [''demo''] = []"
    by (simp add: launch_banner_def launch_detached_def detachRequested_def demo_world_def)
  have l0: "loadWorldJson demo_host (inputDir [''demo'']) = Inr demo_world"
    unfolding d by (simp add: loadWorldJson_def demo_host_def)
  have l1: "loadWorldJson (with_dockerfile demo_host st) (inputDir [''demo'']) = Inr demo_world" for st
    unfolding d by (simp add: loadWorldJson_def demo_host_def with_dockerfile_def)
  have a0: "\<not> inspectOk demo_host (w_image demo_world)" by (simp add: demo_host_def)
  have a1: "\<not> inspectOk (with_dockerfile demo_host st) (w_image demo_world)" for st
    by (simp add: demo_host_def with_dockerfile_def)
  have p0: "world_launch demo_host [''demo''] =
     \<lparr>status = 1, calls = [inspect_cmd ''x/demo''], out = [DockerfileNotFound]\<rparr>"
    using launch_image_absent[OF l0 a0] by (simp add: d i b demo_host_def)
  have p1: "world_launch (with_dockerfile demo_host (Some 1)) [''demo''] =
     \<lparr>status = 1, calls = [inspect_cmd ''x/demo'', build_cmd ''x/demo'' ''/w/demo''],
      out = [DockerBuildFailed]\<rparr>"
    using launch_image_absent[OF l1 a1, of "Some 1"] by (simp add: d i b demo_host_def with_dockerfile_def)
  have p2: "filter is_build (calls (world_launch (with_dockerfile demo_host (Some 0)) [''demo''])) =
     [build_cmd ''x/demo'' ''/w/demo'']"
    using launch_image_absent[OF l1 a1, of "Some 0"] by (simp add: d i demo_host_def with_dockerfile_def)
  show ?thesis using p0 p1 p2 by simp
qed

lemma dockerArgs_web:
  "w_type w = JStr ''web'' \<Longrightarrow>
   dockerArgs w port dir d =
     Inr ([''run'', ''--rm'', ''-p'', port @ '':80'']
          @ (if truthy (w_volumeMount w) then [''-v'', dir @ '':/app''] else [])
          @ (if d then [''-d''] else []) @ [w_image w])"
  by (simp add: dockerArgs_def)

lemma dockerArgs_cli:
  "w_type w = JStr ''cli'' \<Longrightarrow>
   dockerArgs w port dir d = Inr ([''run'', ''--rm'', ''-it''] @ (if d then [''-d''] else []) @ [w_image w])"
  by (simp add: dockerArgs_def)

lemma launch_run_calls:
  assumes load: "loadWorldJson h (inputDir args) = Inr w"
    and ok: "snd (ensureImage h (w_image w) (pathResolve h (inputDir args))) = None"
    and as: "dockerArgs w (launchPort h (getArg args ''--port'') w) (pathResolve h (inputDir args))
               (launch_detached w args) = Inr as"
  shows "filter is_run (calls (world_launch h args)) = [Spawn ''docker'' as]"
proof -
  have "is_run (Spawn ''docker'' as)" using dockerArgs_run[OF as] by (simp add: is_run_def)
  then show ?thesis
    using world_launch_ensured[OF load ok] as
    by (simp add: ensureImage_no_run openBrowser_no_run)
qed

text \<open>
  C6. For every descriptor of type \<^verbatim>\<open>web\<close> that passes the image check: with
  \<^verbatim>\<open>volumeMount\<close> true, the one container run of the launch has the bind mount
  \<^verbatim>\<open>-v <directory>:/app\<close> of the world's directory; with \<^verbatim>\<open>volumeMount\<close>
  false or absent it has no bind mount.
\<close>

theorem launch_web_volume_mount:
  assumes load: "loadWorldJson h (inputDir args) = Inr w"
    and web: "w_type w = JStr ''web''"
    and ok: "snd (ensureImage h (w_image w) (pathResolve h (inputDir args))) = None"
  shows "(w_volumeMount w = JBool True \<longrightarrow>
            filter is_run (calls (world_launch h args)) =
              [Spawn ''docker''
                ([''run'', ''--rm'', ''-p'', launchPort h (getArg args ''--port'') w @ '':80'',
                  ''-v'', pathResolve h (inputDir args) @ '':/app'']
                 @ (if detachRequested args then [''-d''] else []) @ [w_image w])])
       \<and> (w_volumeMount w = JBool False \<or> w_volumeMount w = JUndefined \<longrightarrow>
            filter is_run (calls (world_launch h args)) =
              [Spawn ''docker''
                ([''run'', ''--rm'', ''-p'', launchPort h (getArg args ''--port'') w @ '':80'']
                 @ (if detachRequested args then [''-d''] else []) @ [w_image w])])"
proof -
  have d: "launch_detached w args = detachRequested args"
    using web by (simp add: launch_detached_def)
  note r = launch_run_calls[OF load ok dockerArgs_web[OF web]]
  show ?thesis unfolding r d by auto
qed

theorem launch_web_volume_mount_witness:
  "filter is_run (calls (world_launch (with_image (world_host mounted_world)) [''demo''])) =
     [Spawn ''docker'' [''run'', ''--rm'', ''-p'', ''9000:80'', ''-v'', ''/w/demo:/app'', ''x/demo'']]
   \<and> filter is_run (calls (world_launch (with_image (world_host demo_world)) [''demo'', ''-d''])) =
     [Spawn ''docker'' [''run'', ''--rm'', ''-p'', ''9000:80'', ''-d'', ''x/demo'']]"
proof -
  have d: "inputDir (''demo'' # fl) = ''demo''" for fl by (rule inputDir_demo)
  have l: "loadWorldJson (with_image (world_host w)) (inputDir (''demo'' # fl)) = Inr w" for w fl
    unfolding d by (rule load_world_host_image)
  have e: "snd (ensureImage (with_image (world_host w)) (w_image w)
             (pathResolve (with_image (world_host w)) (inputDir (''demo'' # fl)))) = None" for w fl
    by (simp add: ensureImage_def with_image_def)
  have w1: "w_type mounted_world = JStr ''web''" "w_volumeMount mounted_world = JBool True"
    "w_image mounted_world = ''x/demo''"
    by (simp_all add: mounted_world_def demo_world_def)
  have w2: "w_type demo_world = JStr ''web''" "w_volumeMount demo_world = JUndefined"
    "w_image demo_world = ''x/demo''"
    by (simp_all add: demo_world_def)
  have p: "launchPort (with_image (world_host w)) v w = ''9000''" for w v
    by (simp add: launchPort_def with_image_def world_host_def demo_host_def)
  have r: "pathResolve (with_image (world_host w)) ''demo'' = ''/w/demo''" for w
    by (simp add: with_image_def world_host_def demo_host_def)
  have a: "filter is_run (calls (world_launch (with_image (world_host mounted_world)) [''demo''])) =
     [Spawn ''docker'' [''run'', ''--rm'', ''-p'', ''9000:80'', ''-v'', ''/w/demo:/app'', ''x/demo'']]"
    using launch_web_volume_mount[OF l w1(1) e, of "[]"] w1(2,3)
    by (simp add: d p r detachRequested_def)
  have b: "filter is_run (calls (world_launch (with_image (world_host demo_world)) [''demo'', ''-d''])) =
     [Spawn ''docker'' [''run'', ''--rm'', ''-p'', ''9000:80'', ''-d'', ''x/demo'']]"
    using launch_web_volume_mount[OF l w2(1) e, of "[''-d'']"] w2(2,3)
    by (simp add: d p r detachRequested_def)
  show ?thesis using a b by simp
qed

text \<open>
  world-launch.js on a \<^verbatim>\<open>cli\<close> descriptor: the container run never has
  \<^verbatim>\<open>-d\<close>, whatever the arguments ask for.
\<close>

lemma launch_cli_never_detached:
  assumes load: "loadWorldJson h (inputDir args) = Inr w"
    and cli: "w_type w = JStr ''cli''"
    and ok: "snd (ensureImage h (w_image w) (pathResolve h (inputDir args))) = None"
  shows "filter is_run (calls (world_launch h args)) =
           [Spawn ''docker'' [''run'', ''--rm'', ''-it'', w_image w]]"
proof -
  have d: "launch_detached w args = False" using cli by (simp add: launch_detached_def)
  have "dockerArgs w (launchPort h (getArg args ''--port'') w) (pathResolve h (inputDir args))
          (launch_detached w args) = Inr [''run'', ''--rm'', ''-it'', w_image w]"
    unfolding d using dockerArgs_cli[OF cli] by simp
  from launch_run_calls[OF load ok this] show ?thesis .
qed

text \<open>
  C5. For every descriptor with type \<^verbatim>\<open>cli\<close>, the constructed runtime invocation
  never includes the detached flag. The second launcher breaks this: on a
  \<^verbatim>\<open>cli\<close> descriptor and \<^verbatim>\<open>--detach\<close> it runs
  \<^verbatim>\<open>docker run --rm -it -d\<close>, where world-launch.js runs \<^verbatim>\<open>docker run --rm -it\<close>.
\<close>

theorem sync_launcher_detaches_cli:
  "w_type cli_world = JStr ''cli''
   \<and> world_launch_sync (with_image (world_host cli_world)) [''demo'', ''--detach''] =
       \<lparr>status = 0,
        calls = [inspect_cmd ''x/tool'',
                 SpawnSync ''docker'' [''run'', ''--rm'', ''-it'', ''-d'', ''x/tool'']],
        out = [DetachedMode]\<rparr>
   \<and> filter is_run (calls (world_launch (with_image (world_host cli_world)) [''demo'', ''--detach''])) =
       [Spawn ''docker'' [''run'', ''--rm'', ''-it'', ''x/tool'']]"
proof -
  have d: "inputDir [''demo'', ''--detach''] = ''demo''" by (rule inputDir_demo)
  have w: "w_type cli_world = JStr ''cli''" "w_image cli_world = ''x/tool''"
    by (simp_all add: cli_world_def demo_world_def)
  have l: "loadWorldJson (with_image (world_host cli_world)) (inputDir [''demo'', ''--detach'']) = Inr cli_world"
    unfolding d by (rule load_world_host_image)
  have e: "ensureImage (with_image (world_host cli_world)) ''x/tool'' dir = ([inspect_cmd ''x/tool''], None)" for dir
    by (simp add: ensureImage_def with_image_def)
  have a: "world_launch_sync (with_image (world_host cli_world)) [''demo'', ''--detach''] =
       \<lparr>status = 0,
        calls = [inspect_cmd ''x/tool'',
                 SpawnSync ''docker'' [''run'', ''--rm'', ''-it'', ''-d'', ''x/tool'']],
        out = [DetachedMode]\<rparr>"
    using l by (simp add: world_launch_sync_def Let_def e w dockerArgs_sync_def detachRequested_def d)
  have b: "filter is_run (calls (world_launch (with_image (world_host cli_world)) [''demo'', ''--detach''])) =
       [Spawn ''docker'' [''run'', ''--rm'', ''-it'', ''x/tool'']]"
    using launch_cli_never_detached[OF l w(1)] by (simp add: e w)
  show ?thesis using a b w by simp
qed

section \<open>The scan of the portal\<close>

lemma load_dir_cases:
  "load_dir h rt dir p =
     (case view_of h rt dir of
        Some v \<Rightarrow> p\<lparr>worlds := worlds p @ [v],
                    p_calls := p_calls p @ [ps_id_cmd (w_image (descriptor v))]\<rparr>
      | None \<Rightarrow> p\<lparr>p_out := p_out p @ load_warning h dir\<rparr>)"
  by (simp add: load_dir_def view_of_def descriptor_at_def worldPath_def load_warning_def Let_def
      split: option.splits)

lemma map_filter_Cons:
  "List.map_filter f (x # xs) = (case f x of None \<Rightarrow> List.map_filter f xs | Some y \<Rightarrow> y # List.map_filter f xs)"
  by (simp add: List.map_filter_def split: option.splits)

lemma map_filter_Nil: "List.map_filter f [] = []"
  by (simp add: List.map_filter_def)

lemma fold_load_dir:
  "fold (load_dir h rt) dirs p =
     p\<lparr>worlds := worlds p @ List.map_filter (view_of h rt) dirs,
       p_calls := p_calls p @ map (\<lambda>v. ps_id_cmd (w_image (descriptor v)))
                                 (List.map_filter (view_of h rt) dirs),
       p_out := p_out p @ concat (map (load_warning h) dirs)\<rparr>"
proof (induction dirs arbitrary: p)
  case Nil
  then show ?case by (simp add: map_filter_Nil)
next
  case (Cons d ds)
  show ?case
  proof (cases "view_of h rt d")
    case None
    then have w: "load_dir h rt d p = p\<lparr>p_out := p_out p @ load_warning h d\<rparr>"
      by (simp add: load_dir_cases)
    show ?thesis by (simp add: w Cons.IH map_filter_Cons None)
  next
    case (Some v)
    then have w: "load_dir h rt d p = p\<lparr>worlds := worlds p @ [v],
                    p_calls := p_calls p @ [ps_id_cmd (w_image (descriptor v))]\<rparr>"
      by (simp add: load_dir_cases)
    have lw: "load_warning h d = []"
      using Some by (auto simp: load_warning_def view_of_def split: descriptor_state.splits)
    show ?thesis by (simp add: w Cons.IH map_filter_Cons Some lw)
  qed
qed

lemma loadWorlds_worlds: "worlds (loadWorlds h rt p) = worlds p @ fresh_views h rt"
  by (simp add: loadWorlds_def fold_load_dir fresh_views_def Let_def)

lemma loadWorlds_index: "selectedIndex (loadWorlds h rt p) = selectedIndex p"
  by (simp add: loadWorlds_def fold_load_dir Let_def)

lemma loadWorlds_exited:
  "exited (loadWorlds h rt p) = (if worlds p @ fresh_views h rt = [] then Some 0 else exited p)"
  by (simp add: loadWorlds_def fold_load_dir fresh_views_def Let_def)

lemma loadWorlds_out:
  "p_out (loadWorlds h rt p) =
     p_out p @ concat (map (load_warning h) (subdirs h (cwd h)))
     @ (if worlds p @ fresh_views h rt = [] then [NoWorldsFound] else [])"
  by (simp add: loadWorlds_def fold_load_dir fresh_views_def Let_def)

lemma init_worlds: "worlds (init h rt) = fresh_views h rt"
  by (simp add: init_def loadWorlds_worlds new_portal_def)

lemma probe_unreachable: "docker_ps rt img fmt_id = None \<Longrightarrow> \<not> probe rt img"
  by (simp add: probe_def)

lemma view_of_directory: "view_of h rt d = Some v \<Longrightarrow> directory v = d"
  by (auto simp: view_of_def split: descriptor_state.splits)

lemma view_of_None_iff:
  "view_of h rt d = None \<longleftrightarrow> \<not> is_wellformed (descriptor_at h (worldPath h d))"
  by (simp add: view_of_def is_wellformed_def split: descriptor_state.splits)

lemma directory_fresh:
  "map directory (List.map_filter (view_of h rt) dirs) =
   filter (\<lambda>d. is_wellformed (descriptor_at h (worldPath h d))) dirs"
proof (induction dirs)
  case Nil
  show ?case by (simp add: map_filter_Nil)
next
  case (Cons d ds)
  show ?case
  proof (cases "view_of h rt d")
    case None
    then have "\<not> is_wellformed (descriptor_at h (worldPath h d))"
      by (simp add: view_of_None_iff)
    then show ?thesis using None Cons.IH by (simp add: map_filter_Cons)
  next
    case (Some v)
    then have "is_wellformed (descriptor_at h (worldPath h d))"
      using view_of_None_iff[of h rt d] by simp
    then show ?thesis using Some Cons.IH view_of_directory[OF Some] by (simp add: map_filter_Cons)
  qed
qed

lemma view_of_down: "\<not> daemonUp rt \<Longrightarrow> view_of h rt d = Some v \<Longrightarrow> \<not> isRunning v"
  by (auto simp: view_of_def probe_def docker_ps_def split: descriptor_state.splits)

lemma isRunning_fresh_down:
  "\<not> daemonUp rt \<Longrightarrow> list_all (\<lambda>v. \<not> isRunning v) (List.map_filter (view_of h rt) dirs)"
proof (induction dirs)
  case Nil
  show ?case by (simp add: map_filter_Nil)
next
  case (Cons d ds)
  then show ?case
    by (cases "view_of h rt d") (simp_all add: map_filter_Cons view_of_down)
qed

section \<open>Properties of the portal\<close>

lemma fresh_demo_host: "\<not> probe rt ''x/demo'' \<Longrightarrow> fresh_views demo_host rt = [demo_view False]"
  by (simp add: fresh_views_def map_filter_Cons map_filter_Nil view_of_def descriptor_at_def
      worldPath_def demo_host_def demo_view_def demo_world_def)

lemma probe_none_running: "\<not> probe none_running img"
  by (simp add: probe_def docker_ps_def none_running_def instances_def js_trim_def trimEnd_def)

text \<open>
  The probe of world-stop on a runtime that cannot be reached: the script ends with status
  1 and \<open>FailedDockerPs\<close>, where a world reported as not running ends it with status
  0.
\<close>

theorem stop_probe_error_is_fatal:
  "docker_ps daemon_down ''x/demo'' fmt_id_names = None
   \<and> world_stop demo_host daemon_down [''demo''] =
       (\<lparr>status = 1, calls = [ps_stop_cmd ''x/demo''],
         out = [LookingForContainer ''x/demo'', FailedDockerPs]\<rparr>, daemon_down)
   \<and> world_stop demo_host none_running [''demo''] =
       (\<lparr>status = 0, calls = [ps_stop_cmd ''x/demo''],
         out = [LookingForContainer ''x/demo'', NoRunningContainer ''x/demo'']\<rparr>, none_running)"
proof -
  have d: "docker_ps daemon_down ''x/demo'' fmt_id_names = None"
    by (simp add: docker_ps_def daemon_down_def)
  have i: "w_image demo_world = ''x/demo''" by (simp add: demo_world_def)
  have a: "world_stop demo_host daemon_down [''demo''] =
       (\<lparr>status = 1, calls = [ps_stop_cmd ''x/demo''],
         out = [LookingForContainer ''x/demo'', FailedDockerPs]\<rparr>, daemon_down)"
    using load_demo d by (simp add: world_stop_def i Let_def)
  have b: "world_stop demo_host none_running [''demo''] =
       (\<lparr>status = 0, calls = [ps_stop_cmd ''x/demo''],
         out = [LookingForContainer ''x/demo'', NoRunningContainer ''x/demo'']\<rparr>, none_running)"
    using world_stop_idle[OF load_demo, of none_running]
    by (simp add: i none_running_def instances_def)
  show ?thesis using d a b by simp
qed

text \<open>
  C2 (amended). In the portal's scan (\<^verbatim>\<open>loadWorlds\<close>), a probe whose runtime query
  errors reports the world as not running, and the scan goes on: it still appends one
  element for every directory with a well-formed descriptor, each marked as not running.
  The probe of the stop operation does not fail open: when its query errors, world-stop
  reports the failure and ends with status 1, having issued no terminate call.
\<close>

theorem probe_fails_open_in_portal:
  assumes down: "\<not> daemonUp rt"
  shows "docker_ps rt img fmt_id = None
       \<and> \<not> probe rt img
       \<and> worlds (loadWorlds h rt p) = worlds p @ fresh_views h rt
       \<and> map directory (fresh_views h rt) =
           filter (\<lambda>d. is_wellformed (descriptor_at h (worldPath h d))) (subdirs h (cwd h))
       \<and> list_all (\<lambda>v. \<not> isRunning v) (fresh_views h rt)
       \<and> (loadWorldJson h (argDir argv) = Inr w \<longrightarrow>
            world_stop h rt argv =
              (\<lparr>status = 1, calls = [ps_stop_cmd (w_image w)],
                out = [LookingForContainer (w_image w), FailedDockerPs]\<rparr>, rt))"
proof -
  have q: "docker_ps rt i f = None" for i f using down by (simp add: docker_ps_def)
  have s: "world_stop h rt argv =
              (\<lparr>status = 1, calls = [ps_stop_cmd (w_image w)],
                out = [LookingForContainer (w_image w), FailedDockerPs]\<rparr>, rt)"
    if "loadWorldJson h (argDir argv) = Inr w"
    using that q by (simp add: world_stop_def Let_def)
  show ?thesis
    using q probe_unreachable[OF q] s isRunning_fresh_down[OF down]
    by (simp add: loadWorlds_worlds fresh_views_def directory_fresh)
qed

theorem probe_fails_open_in_portal_witness:
  "\<not> daemonUp daemon_down
   \<and> worlds (init demo_host daemon_down) = [demo_view False]
   \<and> exited (init demo_host daemon_down) = None
   \<and> status (fst (world_stop demo_host daemon_down [''demo''])) = 1"
proof -
  have down: "\<not> daemonUp daemon_down" by (simp add: daemon_down_def)
  note t = probe_fails_open_in_portal[OF down, of "''x/demo''" demo_host new_portal "[''demo'']" demo_world]
  from t have np: "\<not> probe daemon_down ''x/demo''" by simp
  have f: "fresh_views demo_host daemon_down = [demo_view False]"
    using np by (rule fresh_demo_host)
  from t have w: "worlds (init demo_host daemon_down) = [demo_view False]"
    by (simp add: init_def f new_portal_def)
  have e: "exited (init demo_host daemon_down) = None"
    by (simp add: init_def loadWorlds_exited f new_portal_def)
  from t load_demo have s: "status (fst (world_stop demo_host daemon_down [''demo''])) = 1"
    by simp
  show ?thesis using down w e s by simp
qed

text \<open>
  C8. After a refresh, or the return from a child operation, the world list should equal
  the result of a fresh scan. On the host of the world \<^verbatim>\<open>demo\<close> the list holds that
  world once after \<^verbatim>\<open>init\<close> and twice after the key \<^verbatim>\<open>r\<close> or the return from a
  launch, while a fresh scan finds it once: \<^verbatim>\<open>loadWorlds\<close> pushes onto
  \<^verbatim>\<open>this.worlds\<close> without emptying it (lemma \<open>loadWorlds_worlds\<close>). The return
  from the log view scans nothing: the portal is as it was, whatever the runtime has become.
\<close>

theorem refresh_appends_to_previous_list:
  "worlds (init demo_host none_running) = [demo_view False]
   \<and> exited (init demo_host none_running) = None
   \<and> fresh_views demo_host none_running = [demo_view False]
   \<and> worlds (fst (step demo_host none_running (Keypress KeyR) (init demo_host none_running)))
       = [demo_view False, demo_view False]
   \<and> worlds (fst (step demo_host none_running LaunchExited (init demo_host none_running)))
       = [demo_view False, demo_view False]
   \<and> fst (step demo_host two_running LogsExited (init demo_host none_running))
       = init demo_host none_running"
proof -
  have f: "fresh_views demo_host none_running = [demo_view False]"
    using probe_none_running by (rule fresh_demo_host)
  have w: "worlds (init demo_host none_running) = [demo_view False]"
    by (simp add: init_worlds f)
  have e: "exited (init demo_host none_running) = None"
    by (simp add: init_def loadWorlds_exited f new_portal_def)
  have "worlds (fst (step demo_host none_running (Keypress KeyR) (init demo_host none_running)))
        = worlds (init demo_host none_running) @ fresh_views demo_host none_running"
    by (simp add: step_def e handleInput_def loadWorlds_worlds)
  moreover have "worlds (fst (step demo_host none_running LaunchExited (init demo_host none_running)))
        = worlds (init demo_host none_running) @ fresh_views demo_host none_running"
    by (simp add: step_def e loadWorlds_worlds)
  moreover have "fst (step demo_host two_running LogsExited (init demo_host none_running))
        = init demo_host none_running"
    by (simp add: step_def e)
  ultimately show ?thesis using f w e by simp
qed

section \<open>Properties of discovery\<close>

lemma catalog_dir_cases:
  "catalog_dir h (catalogRoot h) d cat =
     cat\<lparr>entries := entries cat @ (case catalog_found h d of None \<Rightarrow> [] | Some e \<Rightarrow> [e]),
         notices := notices cat @ [catalog_notice h d]\<rparr>"
  by (simp add: catalog_dir_def catalog_found_def catalog_notice_def descriptor_at_def
      catalogPath_def Let_def split: option.splits)

lemma fold_catalog_dir:
  "fold (catalog_dir h (catalogRoot h)) dirs cat =
     cat\<lparr>entries := entries cat @ List.map_filter (catalog_found h) dirs,
         notices := notices cat @ map (catalog_notice h) dirs\<rparr>"
proof (induction dirs arbitrary: cat)
  case Nil
  show ?case by (simp add: map_filter_Nil)
next
  case (Cons d ds)
  define c1 where "c1 = catalog_dir h (catalogRoot h) d cat"
  have c1: "c1 = cat\<lparr>entries := entries cat @ (case catalog_found h d of None \<Rightarrow> [] | Some e \<Rightarrow> [e]),
                      notices := notices cat @ [catalog_notice h d]\<rparr>"
    unfolding c1_def by (rule catalog_dir_cases)
  have "fold (catalog_dir h (catalogRoot h)) (d # ds) cat = fold (catalog_dir h (catalogRoot h)) ds c1"
    by (simp add: c1_def)
  also have "\<dots> = c1\<lparr>entries := entries c1 @ List.map_filter (catalog_found h) ds,
                      notices := notices c1 @ map (catalog_notice h) ds\<rparr>"
    by (rule Cons.IH)
  also have "\<dots> = cat\<lparr>entries := entries cat @ List.map_filter (catalog_found h) (d # ds),
                       notices := notices cat @ map (catalog_notice h) (d # ds)\<rparr>"
    unfolding c1 by (cases "catalog_found h d") (simp_all add: map_filter_Cons)
  finally show ?case .
qed

lemma generate_catalog_eq:
  "generate_catalog h =
     \<lparr>entries = List.map_filter (catalog_found h) (subdirs h (catalogRoot h)),
      notices = map (catalog_notice h) (subdirs h (catalogRoot h))\<rparr>"
  using fold_catalog_dir[of h "subdirs h (catalogRoot h)" "\<lparr>entries = [], notices = []\<rparr>"]
  by (simp add: generate_catalog_def catalogRoot_def Let_def)

lemma catalog_found_None_iff:
  "catalog_found h d = None \<longleftrightarrow> \<not> is_wellformed (descriptor_at h (catalogPath h d))"
  by (simp add: catalog_found_def is_wellformed_def split: descriptor_state.splits)

lemma catalog_found_length:
  "length (List.map_filter (catalog_found h) dirs) =
   length (filter (\<lambda>d. is_wellformed (descriptor_at h (catalogPath h d))) dirs)"
proof (induction dirs)
  case Nil
  show ?case by (simp add: map_filter_Nil)
next
  case (Cons d ds)
  show ?case
  proof (cases "catalog_found h d")
    case None
    then have "\<not> is_wellformed (descriptor_at h (catalogPath h d))"
      by (simp add: catalog_found_None_iff)
    then show ?thesis using None Cons.IH by (simp add: map_filter_Cons)
  next
    case (Some e)
    then have "is_wellformed (descriptor_at h (catalogPath h d))"
      using catalog_found_None_iff[of h d] by simp
    then show ?thesis using Some Cons.IH by (simp add: map_filter_Cons)
  qed
qed

text \<open>
  A scan root with a directory that has no descriptor: the portal leaves the directory
  out and prints nothing about it.
\<close>

theorem missing_descriptor_skipped_silently:
  "descriptor_at sparse_host (worldPath sparse_host ''empty'') = Missing
   \<and> map directory (worlds (init sparse_host none_running)) = [''demo'']
   \<and> p_out (init sparse_host none_running) = []"
proof -
  have r: "sparse_host = demo_host\<lparr>subdirs := (\<lambda>d. [''empty'', ''demo''])\<rparr>"
    by (simp add: sparse_host_def)
  have m: "descriptor_at sparse_host (worldPath sparse_host ''empty'') = Missing"
    by (simp add: descriptor_at_def worldPath_def sparse_host_def demo_host_def)
  have w: "descriptor_at sparse_host (worldPath sparse_host ''demo'') = WellFormed demo_world"
    by (simp add: descriptor_at_def worldPath_def sparse_host_def demo_host_def)
  have s: "subdirs sparse_host (cwd sparse_host) = [''empty'', ''demo'']"
    by (simp add: sparse_host_def)
  have f: "fresh_views sparse_host none_running = [demo_view False]"
    by (simp add: fresh_views_def s map_filter_Cons map_filter_Nil view_of_def m w
        probe_none_running demo_view_def)
  have a: "map directory (worlds (init sparse_host none_running)) = [''demo'']"
    by (simp add: init_worlds f demo_view_def)
  have b: "p_out (init sparse_host none_running) = []"
    by (simp add: init_def loadWorlds_out f s load_warning_def m w new_portal_def)
  show ?thesis using m a b by simp
qed

text \<open>
  C9 (amended). For every scan root, batch discovery returns exactly the worlds whose
  directories contain a well-formed descriptor, in enumeration order. A directory with a
  malformed descriptor is left out with a non-fatal warning (\<open>FailedToLoad\<close> in the
  portal, \<open>CatalogParseFailed\<close> in the catalog scan); a directory with a missing
  descriptor is left out too, silently by the portal and with the notice
  \<open>CatalogSkipped\<close> by the catalog scan; the well-formed descriptors are still
  returned. The portal's list is that of its first scan (\<^verbatim>\<open>init\<close>).
\<close>

theorem discovery_returns_wellformed:
  "worlds (init h rt) = fresh_views h rt
   \<and> map directory (worlds (init h rt)) =
       filter (\<lambda>d. is_wellformed (descriptor_at h (worldPath h d))) (subdirs h (cwd h))
   \<and> p_out (init h rt) =
       concat (map (load_warning h) (subdirs h (cwd h)))
       @ (if fresh_views h rt = [] then [NoWorldsFound] else [])
   \<and> entries (generate_catalog h) = List.map_filter (catalog_found h) (subdirs h (catalogRoot h))
   \<and> length (entries (generate_catalog h)) =
       length (filter (\<lambda>d. is_wellformed (descriptor_at h (catalogPath h d)))
                 (subdirs h (catalogRoot h)))
   \<and> notices (generate_catalog h) = map (catalog_notice h) (subdirs h (catalogRoot h))"
proof -
  have a: "map directory (worlds (init h rt)) =
       filter (\<lambda>d. is_wellformed (descriptor_at h (worldPath h d))) (subdirs h (cwd h))"
    by (simp add: init_worlds fresh_views_def directory_fresh)
  have b: "p_out (init h rt) =
       concat (map (load_warning h) (subdirs h (cwd h)))
       @ (if fresh_views h rt = [] then [NoWorldsFound] else [])"
    by (simp add: init_def loadWorlds_out new_portal_def)
  show ?thesis using a b by (simp add: init_worlds generate_catalog_eq catalog_found_length)
qed

theorem discovery_returns_wellformed_witness:
  "worlds (init mixed_host none_running) = [demo_view False]
   \<and> p_out (init mixed_host none_running) = [FailedToLoad ''broken'']
   \<and> exited (init mixed_host none_running) = None
   \<and> entries (generate_catalog mixed_host) = [catalog_entry_of demo_world ''demo'']
   \<and> notices (generate_catalog mixed_host) = [CatalogParseFailed ''broken'', CatalogFound (JStr ''demo'')]"
proof -
  note t = discovery_returns_wellformed[of mixed_host none_running]
  have s: "subdirs mixed_host d = [''broken'', ''demo'']" for d
    by (simp add: mixed_host_def)
  have m: "descriptor_at mixed_host (worldPath mixed_host ''broken'') = Malformed"
    by (simp add: descriptor_at_def worldPath_def mixed_host_def demo_host_def)
  have w: "descriptor_at mixed_host (worldPath mixed_host ''demo'') = WellFormed demo_world"
    by (simp add: descriptor_at_def worldPath_def mixed_host_def demo_host_def)
  have cm: "descriptor_at mixed_host (catalogPath mixed_host ''broken'') = Malformed"
    by (simp add: descriptor_at_def catalogPath_def catalogRoot_def mixed_host_def demo_host_def)
  have cw: "descriptor_at mixed_host (catalogPath mixed_host ''demo'') = WellFormed demo_world"
    by (simp add: descriptor_at_def catalogPath_def catalogRoot_def mixed_host_def demo_host_def)
  have f: "fresh_views mixed_host none_running = [demo_view False]"
    by (simp add: fresh_views_def s map_filter_Cons map_filter_Nil view_of_def m w
        probe_none_running demo_view_def)
  have e: "exited (init mixed_host none_running) = None"
    by (simp add: init_def loadWorlds_exited f new_portal_def)
  have n: "w_name demo_world = JStr ''demo''" by (simp add: demo_world_def)
  show ?thesis
    using t e
    by (simp add: f s load_warning_def m w map_filter_Cons map_filter_Nil catalog_found_def
        catalog_notice_def cm cw n)
qed

section \<open>The cursor\<close>

text \<open>
  C10. In the navigation loop with a non-empty world list and the cursor on one of its
  elements, after a cursor move (up or down) the cursor is again within
  \<open>[0, len(worlds) - 1]\<close>; the list, the calls made so far and the runtime are as
  before; move-up at index 0 stays at 0 and move-down at the last index stays there.
\<close>

theorem cursor_stays_in_range:
  assumes ne: "worlds p \<noteq> []"
    and lo: "0 \<le> selectedIndex p" and hi: "selectedIndex p \<le> int (length (worlds p)) - 1"
    and k: "k = KeyUp \<or> k = KeyDown"
  shows "0 \<le> selectedIndex (fst (handleInput h rt k p))
       \<and> selectedIndex (fst (handleInput h rt k p)) \<le> int (length (worlds (fst (handleInput h rt k p)))) - 1
       \<and> worlds (fst (handleInput h rt k p)) = worlds p
       \<and> p_calls (fst (handleInput h rt k p)) = p_calls p
       \<and> snd (handleInput h rt k p) = rt
       \<and> (selectedIndex p = 0 \<longrightarrow> selectedIndex (fst (handleInput h rt KeyUp p)) = 0)
       \<and> (selectedIndex p = int (length (worlds p)) - 1 \<longrightarrow>
            selectedIndex (fst (handleInput h rt KeyDown p)) = int (length (worlds p)) - 1)"
proof -
  from ne have "0 < length (worlds p)" by simp
  then show ?thesis using lo hi k by (auto simp: handleInput_def)
qed

text \<open>
  The cursor is within the list in every state of every session that has not exited, so
  the hypotheses of the cursor moves hold whenever a key is handled.
\<close>

lemma loadWorlds_settled: "settled p \<Longrightarrow> settled (loadWorlds h rt p)"
  by (auto simp: settled_def in_range_def loadWorlds_worlds loadWorlds_index loadWorlds_exited
      split: if_splits)

lemma crash_settled: "settled (crash p)"
  by (simp add: settled_def crash_def)

lemma stopWorld_settled: "settled p \<Longrightarrow> settled (fst (stopWorld h rt p))"
proof -
  assume s: "settled p"
  have u: "settled (p\<lparr>p_calls := c, p_out := m\<rparr>)" for c m
    using s by (auto simp: settled_def in_range_def split: if_splits)
  have v: "settled (p\<lparr>p_out := m\<rparr>)" for m
    using s by (auto simp: settled_def in_range_def split: if_splits)
  have w: "settled (p\<lparr>p_calls := c, p_out := m\<rparr>\<lparr>p_out := m'\<rparr>)" for c m m'
    using s by (auto simp: settled_def in_range_def split: if_splits)
  show ?thesis
    by (auto simp: stopWorld_def Let_def crash_settled u v w loadWorlds_settled
        split: option.splits prod.splits)
qed

lemma handleInput_settled: "settled p \<Longrightarrow> exited p = None \<Longrightarrow> settled (fst (handleInput h rt k p))"
proof (cases k)
  case KeyS
  assume "settled p"
  then show ?thesis using KeyS by (simp add: handleInput_def stopWorld_settled)
next
  case KeyR
  assume "settled p"
  then show ?thesis using KeyR by (simp add: handleInput_def loadWorlds_settled)
qed (auto simp: handleInput_def settled_def in_range_def launchWorld_def injectData_def
       viewLogs_def crash_def Let_def split: option.splits)

lemma step_settled: "settled p \<Longrightarrow> settled (fst (step h rt e p))"
  by (cases e) (auto simp: step_def handleInput_settled loadWorlds_settled)

lemma init_settled: "settled (init h rt)"
  by (auto simp: init_def settled_def in_range_def loadWorlds_worlds loadWorlds_index
      loadWorlds_exited new_portal_def split: if_splits)

lemma run_settled: "settled p \<Longrightarrow> settled (run es p)"
  by (induction es arbitrary: p) (auto simp: step_settled)

lemma session_index_in_range:
  "exited (run es (init h rt)) = None \<Longrightarrow>
   0 \<le> selectedIndex (run es (init h rt))
   \<and> selectedIndex (run es (init h rt)) < int (length (worlds (run es (init h rt))))"
  using run_settled[OF init_settled, of es h rt] by (simp add: settled_def in_range_def)

theorem cursor_stays_in_range_witness:
  "length (worlds (init three_host none_running)) = 3
   \<and> selectedIndex (init three_host none_running) = 0
   \<and> selectedIndex (run [down, down] (init three_host none_running)) = 2
   \<and> selectedIndex (run [down, down, down] (init three_host none_running)) = 2
   \<and> worlds (run [down, down, down] (init three_host none_running)) = worlds (init three_host none_running)"
proof -
  define p0 where "p0 = init three_host none_running"
  have s: "subdirs three_host d = [''a'', ''b'', ''c'']" for d by (simp add: three_host_def)
  have v: "view_of three_host none_running d =
           Some \<lparr>descriptor = demo_world, directory = d, isRunning = False\<rparr>" for d
    by (simp add: view_of_def descriptor_at_def three_host_def probe_none_running)
  have f: "fresh_views three_host none_running =
           map (\<lambda>d. \<lparr>descriptor = demo_world, directory = d, isRunning = False\<rparr>) [''a'', ''b'', ''c'']"
    by (simp add: fresh_views_def s map_filter_Cons map_filter_Nil v)
  have l0: "length (worlds p0) = 3" by (simp add: p0_def init_worlds f)
  have i0: "selectedIndex p0 = 0" by (simp add: p0_def init_def loadWorlds_index new_portal_def)
  have e0: "exited p0 = None" by (simp add: p0_def init_def loadWorlds_exited f new_portal_def)
  define mv where "mv p = fst (handleInput three_host none_running KeyDown p)" for p
  have st: "fst (step three_host none_running (Keypress KeyDown) p) = mv p" if "exited p = None" for p
    using that by (simp add: step_def mv_def)
  have mv: "worlds (mv p) = worlds p \<and> exited (mv p) = None
          \<and> selectedIndex (mv p) = min (int (length (worlds p)) - 1) (selectedIndex p + 1)"
    if "exited p = None" for p
    using that by (simp add: mv_def handleInput_def)
  define p1 where "p1 = mv p0"
  define p2 where "p2 = mv p1"
  define p3 where "p3 = mv p2"
  have q1: "worlds p1 = worlds p0" "exited p1 = None" "selectedIndex p1 = 1"
    using mv[OF e0] l0 i0 by (simp_all add: p1_def)
  have q2: "worlds p2 = worlds p0" "exited p2 = None" "selectedIndex p2 = 2"
    using mv[OF q1(2)] q1 l0 by (simp_all add: p2_def)
  have ne: "worlds p2 \<noteq> []" using q2(1) l0 by auto
  have hi: "selectedIndex p2 \<le> int (length (worlds p2)) - 1" using q2 l0 by simp
  have lo: "0 \<le> selectedIndex p2" using q2 by simp
  from cursor_stays_in_range[OF ne lo hi, of KeyDown three_host none_running]
  have q3: "worlds p3 = worlds p0" "selectedIndex p3 = 2"
    using q2 l0 by (simp_all add: p3_def mv_def)
  have r2: "run [down, down] p0 = p2"
    by (simp add: down_def st e0 q1 p1_def[symmetric] p2_def[symmetric])
  have r3: "run [down, down, down] p0 = p3"
    by (simp add: down_def st e0 q1 q2 p1_def[symmetric] p2_def[symmetric] p3_def[symmetric])
  show ?thesis using l0 i0 r2 r3 q2 q3 by (simp add: p0_def)
qed

end
